theory Spec2Isabelle
  imports Main "HOL-Library.AList" "HOL-Library.Word"
begin

section \<open>Request status\<close>

text \<open>
  \<^verbatim>\<open>class RequestStatus(enum.Enum)\<close> of \<^verbatim>\<open>sky/api/requests/tasks.py\<close>: five members, each
  with its own name as value.
\<close>

datatype RequestStatus = PENDING | RUNNING | SUCCEEDED | FAILED | ABORTED

text \<open>\<^verbatim>\<open>list(RequestStatus)\<close>: the members in definition order.\<close>

definition RequestStatus_list :: "RequestStatus list" where
  "RequestStatus_list = [PENDING, RUNNING, SUCCEEDED, FAILED, ABORTED]"

text \<open>
  \<^verbatim>\<open>list.index(x)\<close>: the position of the first element equal to \<open>x\<close>; Python raises
  ValueError when there is none, which is \<open>None\<close> here.
\<close>

fun list_index :: "'a list \<Rightarrow> 'a \<Rightarrow> nat option" where
  "list_index [] x = None"
| "list_index (y # ys) x =
     (if y = x then Some 0 else map_option Suc (list_index ys x))"

text \<open>
  \<^verbatim>\<open>RequestStatus.__gt__\<close>: compares the two positions in \<^verbatim>\<open>list(RequestStatus)\<close>. A
  failed \<^verbatim>\<open>index\<close> would propagate as an exception, so the result is optional.
\<close>

definition status_gt :: "RequestStatus \<Rightarrow> RequestStatus \<Rightarrow> bool option" where
  "status_gt self other =
     (case list_index RequestStatus_list self of
        None \<Rightarrow> None
      | Some i \<Rightarrow>
          (case list_index RequestStatus_list other of
             None \<Rightarrow> None
           | Some j \<Rightarrow> Some (i > j)))"

text \<open>
  The position of a status in the declaration order PENDING, RUNNING, SUCCEEDED, FAILED,
  ABORTED, written out as the specification words it.
\<close>

fun declaration_position :: "RequestStatus \<Rightarrow> nat" where
  "declaration_position PENDING = 0"
| "declaration_position RUNNING = 1"
| "declaration_position SUCCEEDED = 2"
| "declaration_position FAILED = 3"
| "declaration_position ABORTED = 4"

section \<open>Python values and the JSON codec\<close>

text \<open>The exceptions this module can raise or let through.\<close>

datatype py_error =
    TypeError
  | ValueError
  | KeyError
  | AssertionError
  | RecursionError
  | OverflowError
  | OSError
  | OperationalError

text \<open>
  Why a write to the standard output fails: the stream's encoding has no form for a
  character, or the stream cannot be written.
\<close>

datatype write_error = CannotEncode | CannotWrite

text \<open>
  An exception instance as far as this module looks at it: \<^verbatim>\<open>type(e).__name__\<close>,
  \<^verbatim>\<open>str(e)\<close>, and the rest of the instance (its attributes, each with its text), which only
  the pickling helpers read.
\<close>

datatype py_exception =
  PyException (exc_type_name: string) (exc_str: string) (exc_attrs: "(string \<times> string) list")

text \<open>
  The values the fields typed \<^verbatim>\<open>Any\<close> and \<^verbatim>\<open>Dict[str, Any]\<close> can hold. A float is its 64
  bits. A dict is the list of its items in insertion order. \<open>PCircular\<close> is the list that
  holds itself (\<^verbatim>\<open>a = []; a.append(a)\<close>), the one value here that is not a finite tree. An
  exception instance stands for every object the JSON encoder has no rule for.
\<close>

datatype pyval =
    PNone
  | PBool bool
  | PInt int
  | PFloat "64 word"
  | PStr string
  | PList "pyval list"
  | PTuple "pyval list"
  | PDict "(pyval \<times> pyval) list"
  | PCircular
  | PException py_exception

text \<open>What one \<^verbatim>\<open>print\<close> call writes: literal text and interpolated values, in order.\<close>

datatype out_item = Text string | Shown pyval

text \<open>
  What the interpreter the module runs in decides. \<open>int_max_str_digits\<close> is
  \<^verbatim>\<open>sys.get_int_max_str_digits()\<close>: the longest integer, in decimal digits, that is
  converted to or from text (4300 unless changed, 0 for no limit). \<open>encoder_depth\<close>,
  \<open>decoder_depth\<close> and \<open>repr_depth\<close> are the numbers of containers nested in one another
  that \<^verbatim>\<open>json.dumps\<close>, \<^verbatim>\<open>json.loads\<close> and \<^verbatim>\<open>str\<close> get through before the recursion limit
  is hit; they depend on the limit and on the call stack. \<open>float_repr\<close> is
  \<^verbatim>\<open>float.__repr__\<close>, and \<open>stdout_error\<close> tells whether writing a message to the standard
  output fails.
\<close>

record interpreter =
  int_max_str_digits :: nat
  encoder_depth :: nat
  decoder_depth :: nat
  repr_depth :: nat
  float_repr :: "64 word \<Rightarrow> string"
  stdout_error :: "out_item list \<Rightarrow> write_error option"

text \<open>
  A failed write raises UnicodeEncodeError, a ValueError, when the stream's encoding has
  no form for a character, and an OSError otherwise.
\<close>

fun write_raises :: "write_error \<Rightarrow> py_error" where
  "write_raises CannotEncode = ValueError"
| "write_raises CannotWrite = OSError"

text \<open>
  The JSON document a text denotes. \<^verbatim>\<open>json.dumps\<close> and \<^verbatim>\<open>json.loads\<close> belong to the Python
  standard library; they are modelled between Python values and documents, and a stored
  text column holds the document (the character-level syntax is not modelled, so no
  stored text is malformed).
\<close>

datatype json =
    JNull
  | JBool bool
  | JInt int
  | JFloat "64 word"
  | JStr string
  | JArr "json list"
  | JObj "(string \<times> json) list"

text \<open>
  A float is NaN when its exponent bits are all set and its fraction is not zero, that
  is, when its 63 bits below the sign are above those of infinity. \<^verbatim>\<open>float('nan')\<close>, which
  \<^verbatim>\<open>json.loads\<close> makes of the text \<^verbatim>\<open>NaN\<close>, is the quiet NaN.
\<close>

definition is_nan :: "64 word \<Rightarrow> bool" where
  "is_nan b = (0x7FF0000000000000 < take_bit 63 b)"

definition quiet_nan :: "64 word" where
  "quiet_nan = 0x7FF8000000000000"

text \<open>The decimal digits of a natural number.\<close>

fun digits_of_nat :: "nat \<Rightarrow> string" where
  "digits_of_nat n =
     (if n < 10 then [char_of (48 + n)]
      else digits_of_nat (n div 10) @ [char_of (48 + n mod 10)])"

text \<open>
  An integer has more digits than the interpreter converts: \<^verbatim>\<open>int.__repr__\<close> and
  \<^verbatim>\<open>int(text)\<close> raise ValueError on it.
\<close>

definition int_too_long :: "interpreter \<Rightarrow> int \<Rightarrow> bool" where
  "int_too_long py i =
     (int_max_str_digits py \<noteq> 0 \<and>
      int_max_str_digits py < length (digits_of_nat (nat \<bar>i\<bar>)))"

text \<open>The decimal text of an integer, as \<^verbatim>\<open>int.__repr__\<close> gives it.\<close>

definition int_repr :: "interpreter \<Rightarrow> int \<Rightarrow> py_error + string" where
  "int_repr py i =
     (if int_too_long py i then Inl ValueError
      else if i < 0 then Inr (CHR ''-'' # digits_of_nat (nat (- i)))
      else Inr (digits_of_nat (nat i)))"

text \<open>
  The key of a JSON object member: \<^verbatim>\<open>json.dumps\<close> (with \<^verbatim>\<open>skipkeys=False\<close>) keeps a string,
  turns a float, \<^verbatim>\<open>True\<close>, \<^verbatim>\<open>False\<close>, \<^verbatim>\<open>None\<close> and an integer into text, in this order of
  tests, and raises TypeError on every other key.
\<close>

fun dict_key :: "interpreter \<Rightarrow> pyval \<Rightarrow> py_error + string" where
  "dict_key py (PStr s) = Inr s"
| "dict_key py (PFloat b) = Inr (float_repr py b)"
| "dict_key py (PBool b) = Inr (if b then ''true'' else ''false'')"
| "dict_key py PNone = Inr ''null''"
| "dict_key py (PInt i) = int_repr py i"
| "dict_key py _ = Inl TypeError"

text \<open>
  The encoder of \<^verbatim>\<open>json.dumps(v)\<close> with the default arguments, with \<open>d\<close> containers left
  to enter. Lists and tuples both become arrays, a dict becomes an object; an integer
  with too many digits raises ValueError, as does a container met again inside itself
  (after it has been entered twice); an object without a rule raises TypeError. The
  first failure, in the order of the traversal, is the one raised.
\<close>

primrec dumps_at :: "interpreter \<Rightarrow> pyval \<Rightarrow> nat \<Rightarrow> py_error + json"
  and dumps_list :: "interpreter \<Rightarrow> pyval list \<Rightarrow> nat \<Rightarrow> py_error + json list"
  and dumps_items ::
    "interpreter \<Rightarrow> (pyval \<times> pyval) list \<Rightarrow> nat \<Rightarrow> py_error + (string \<times> json) list"
  and dumps_item :: "interpreter \<Rightarrow> pyval \<times> pyval \<Rightarrow> nat \<Rightarrow> py_error + (string \<times> json)"
where
  "dumps_at py PNone d = Inr JNull"
| "dumps_at py (PBool b) d = Inr (JBool b)"
| "dumps_at py (PInt i) d = (if int_too_long py i then Inl ValueError else Inr (JInt i))"
| "dumps_at py (PFloat b) d = Inr (JFloat b)"
| "dumps_at py (PStr s) d = Inr (JStr s)"
| "dumps_at py (PList xs) d =
     (case d of
        0 \<Rightarrow> Inl RecursionError
      | Suc d' \<Rightarrow>
          (case dumps_list py xs d' of Inl e \<Rightarrow> Inl e | Inr js \<Rightarrow> Inr (JArr js)))"
| "dumps_at py (PTuple xs) d =
     (case d of
        0 \<Rightarrow> Inl RecursionError
      | Suc d' \<Rightarrow>
          (case dumps_list py xs d' of Inl e \<Rightarrow> Inl e | Inr js \<Rightarrow> Inr (JArr js)))"
| "dumps_at py (PDict kvs) d =
     (case d of
        0 \<Rightarrow> Inl RecursionError
      | Suc d' \<Rightarrow>
          (case dumps_items py kvs d' of Inl e \<Rightarrow> Inl e | Inr ms \<Rightarrow> Inr (JObj ms)))"
| "dumps_at py PCircular d =
     (case d of
        0 \<Rightarrow> Inl RecursionError
      | Suc d' \<Rightarrow> (case d' of 0 \<Rightarrow> Inl RecursionError | Suc d'' \<Rightarrow> Inl ValueError))"
| "dumps_at py (PException x) d = Inl TypeError"
| "dumps_list py [] d = Inr []"
| "dumps_list py (x # xs) d =
     (case dumps_at py x d of
        Inl e \<Rightarrow> Inl e
      | Inr j \<Rightarrow> (case dumps_list py xs d of Inl e \<Rightarrow> Inl e | Inr js \<Rightarrow> Inr (j # js)))"
| "dumps_items py [] d = Inr []"
| "dumps_items py (kv # kvs) d =
     (case dumps_item py kv d of
        Inl e \<Rightarrow> Inl e
      | Inr m \<Rightarrow> (case dumps_items py kvs d of Inl e \<Rightarrow> Inl e | Inr ms \<Rightarrow> Inr (m # ms)))"
| "dumps_item py (k, v) d =
     (case dict_key py k of
        Inl e \<Rightarrow> Inl e
      | Inr s \<Rightarrow> (case dumps_at py v d of Inl e \<Rightarrow> Inl e | Inr j \<Rightarrow> Inr (s, j)))"

definition json_dumps :: "interpreter \<Rightarrow> pyval \<Rightarrow> py_error + json" where
  "json_dumps py v = dumps_at py v (encoder_depth py)"

text \<open>
  \<^verbatim>\<open>dict(pairs)\<close>: the pairs are inserted in order; a key that is already there keeps its
  place and takes the new value.
\<close>

definition dict_of_pairs :: "(pyval \<times> pyval) list \<Rightarrow> (pyval \<times> pyval) list" where
  "dict_of_pairs kvs = foldl (\<lambda>d kv. AList.update (fst kv) (snd kv) d) [] kvs"

text \<open>
  The decoder of \<^verbatim>\<open>json.loads\<close> on a document, with \<open>d\<close> containers left to enter: an
  array becomes a list, an object a dict with string keys, built from its members by
  \<^verbatim>\<open>dict(pairs)\<close>; an integer with too many digits raises ValueError.
\<close>

primrec loads_at :: "interpreter \<Rightarrow> json \<Rightarrow> nat \<Rightarrow> py_error + pyval"
  and loads_list :: "interpreter \<Rightarrow> json list \<Rightarrow> nat \<Rightarrow> py_error + pyval list"
  and loads_members ::
    "interpreter \<Rightarrow> (string \<times> json) list \<Rightarrow> nat \<Rightarrow> py_error + (pyval \<times> pyval) list"
  and loads_member :: "interpreter \<Rightarrow> string \<times> json \<Rightarrow> nat \<Rightarrow> py_error + (pyval \<times> pyval)"
where
  "loads_at py JNull d = Inr PNone"
| "loads_at py (JBool b) d = Inr (PBool b)"
| "loads_at py (JInt i) d = (if int_too_long py i then Inl ValueError else Inr (PInt i))"
| "loads_at py (JFloat b) d = Inr (PFloat (if is_nan b then quiet_nan else b))"
| "loads_at py (JStr s) d = Inr (PStr s)"
| "loads_at py (JArr js) d =
     (case d of
        0 \<Rightarrow> Inl RecursionError
      | Suc d' \<Rightarrow>
          (case loads_list py js d' of Inl e \<Rightarrow> Inl e | Inr xs \<Rightarrow> Inr (PList xs)))"
| "loads_at py (JObj ms) d =
     (case d of
        0 \<Rightarrow> Inl RecursionError
      | Suc d' \<Rightarrow>
          (case loads_members py ms d' of
             Inl e \<Rightarrow> Inl e
           | Inr kvs \<Rightarrow> Inr (PDict (dict_of_pairs kvs))))"
| "loads_list py [] d = Inr []"
| "loads_list py (j # js) d =
     (case loads_at py j d of
        Inl e \<Rightarrow> Inl e
      | Inr x \<Rightarrow> (case loads_list py js d of Inl e \<Rightarrow> Inl e | Inr xs \<Rightarrow> Inr (x # xs)))"
| "loads_members py [] d = Inr []"
| "loads_members py (m # ms) d =
     (case loads_member py m d of
        Inl e \<Rightarrow> Inl e
      | Inr kv \<Rightarrow>
          (case loads_members py ms d of Inl e \<Rightarrow> Inl e | Inr kvs \<Rightarrow> Inr (kv # kvs)))"
| "loads_member py (s, j) d =
     (case loads_at py j d of Inl e \<Rightarrow> Inl e | Inr v \<Rightarrow> Inr (PStr s, v))"

definition json_loads :: "interpreter \<Rightarrow> json \<Rightarrow> py_error + pyval" where
  "json_loads py j = loads_at py j (decoder_depth py)"

text \<open>
  \<^verbatim>\<open>str(v)\<close>, as an f-string applies it, with \<open>d\<close> containers left to enter: the exception
  it raises, if any. An integer with too many digits raises ValueError; the list that
  holds itself is written with an ellipsis.
\<close>

primrec repr_error :: "interpreter \<Rightarrow> pyval \<Rightarrow> nat \<Rightarrow> py_error option"
  and repr_error_list :: "interpreter \<Rightarrow> pyval list \<Rightarrow> nat \<Rightarrow> py_error option"
  and repr_error_items :: "interpreter \<Rightarrow> (pyval \<times> pyval) list \<Rightarrow> nat \<Rightarrow> py_error option"
  and repr_error_item :: "interpreter \<Rightarrow> pyval \<times> pyval \<Rightarrow> nat \<Rightarrow> py_error option"
where
  "repr_error py PNone d = None"
| "repr_error py (PBool b) d = None"
| "repr_error py (PInt i) d = (if int_too_long py i then Some ValueError else None)"
| "repr_error py (PFloat b) d = None"
| "repr_error py (PStr s) d = None"
| "repr_error py (PList xs) d =
     (case d of 0 \<Rightarrow> Some RecursionError | Suc d' \<Rightarrow> repr_error_list py xs d')"
| "repr_error py (PTuple xs) d =
     (case d of 0 \<Rightarrow> Some RecursionError | Suc d' \<Rightarrow> repr_error_list py xs d')"
| "repr_error py (PDict kvs) d =
     (case d of 0 \<Rightarrow> Some RecursionError | Suc d' \<Rightarrow> repr_error_items py kvs d')"
| "repr_error py PCircular d = None"
| "repr_error py (PException x) d = None"
| "repr_error_list py [] d = None"
| "repr_error_list py (x # xs) d =
     (case repr_error py x d of Some e \<Rightarrow> Some e | None \<Rightarrow> repr_error_list py xs d)"
| "repr_error_items py [] d = None"
| "repr_error_items py (kv # kvs) d =
     (case repr_error_item py kv d of Some e \<Rightarrow> Some e | None \<Rightarrow> repr_error_items py kvs d)"
| "repr_error_item py (k, v) d =
     (case repr_error py k d of Some e \<Rightarrow> Some e | None \<Rightarrow> repr_error py v d)"

definition str_error :: "interpreter \<Rightarrow> pyval \<Rightarrow> py_error option" where
  "str_error py v = repr_error py v (repr_depth py)"

text \<open>
  A value is representable in the storage format when \<^verbatim>\<open>json.dumps\<close> accepts it, that
  is, when encoding it does not fail.
\<close>

definition representable :: "interpreter \<Rightarrow> pyval \<Rightarrow> bool" where
  "representable py v = (\<not> isl (json_dumps py v))"

text \<open>
  The values JSON has a form of its own for, nested through at most \<open>d\<close> containers:
  \<^verbatim>\<open>None\<close>, booleans, integers within the digit limit, floats other than NaN, strings,
  lists of such values, and dicts with string keys (no key twice, as in every Python
  dict) and such values.
\<close>

primrec native_at :: "interpreter \<Rightarrow> pyval \<Rightarrow> nat \<Rightarrow> bool"
  and native_list :: "interpreter \<Rightarrow> pyval list \<Rightarrow> nat \<Rightarrow> bool"
  and native_items :: "interpreter \<Rightarrow> (pyval \<times> pyval) list \<Rightarrow> nat \<Rightarrow> bool"
  and native_item :: "interpreter \<Rightarrow> pyval \<times> pyval \<Rightarrow> nat \<Rightarrow> bool"
where
  "native_at py PNone d = True"
| "native_at py (PBool b) d = True"
| "native_at py (PInt i) d = (\<not> int_too_long py i)"
| "native_at py (PFloat b) d = (\<not> is_nan b)"
| "native_at py (PStr s) d = True"
| "native_at py (PList xs) d = (case d of 0 \<Rightarrow> False | Suc d' \<Rightarrow> native_list py xs d')"
| "native_at py (PTuple xs) d = False"
| "native_at py (PDict kvs) d =
     (case d of 0 \<Rightarrow> False | Suc d' \<Rightarrow> native_items py kvs d' \<and> distinct (map fst kvs))"
| "native_at py PCircular d = False"
| "native_at py (PException x) d = False"
| "native_list py [] d = True"
| "native_list py (x # xs) d = (native_at py x d \<and> native_list py xs d)"
| "native_items py [] d = True"
| "native_items py (kv # kvs) d = (native_item py kv d \<and> native_items py kvs d)"
| "native_item py (k, v) d = ((case k of PStr s \<Rightarrow> True | _ \<Rightarrow> False) \<and> native_at py v d)"

text \<open>Such a value, nested no deeper than both the encoder and the decoder get.\<close>

definition json_native :: "interpreter \<Rightarrow> pyval \<Rightarrow> bool" where
  "json_native py v = native_at py v (min (encoder_depth py) (decoder_depth py))"

section \<open>The task record and its codec\<close>

text \<open>
  \<^verbatim>\<open>RequestStatus.value\<close> and the lookup by value \<^verbatim>\<open>RequestStatus(text)\<close>, which raises
  ValueError on a text that is no member's value.
\<close>

fun status_value :: "RequestStatus \<Rightarrow> string" where
  "status_value PENDING = ''PENDING''"
| "status_value RUNNING = ''RUNNING''"
| "status_value SUCCEEDED = ''SUCCEEDED''"
| "status_value FAILED = ''FAILED''"
| "status_value ABORTED = ''ABORTED''"

definition RequestStatus_of_value :: "string \<Rightarrow> py_error + RequestStatus" where
  "RequestStatus_of_value t =
     (case filter (\<lambda>s. status_value s = t) RequestStatus_list of
        [] \<Rightarrow> Inl ValueError
      | s # _ \<Rightarrow> Inr s)"

text \<open>\<^verbatim>\<open>class RequestTask\<close>; \<^verbatim>\<open>None\<close> in a field typed \<^verbatim>\<open>Any\<close> is \<open>PNone\<close>.\<close>

record RequestTask =
  request_id :: string
  name :: string
  entrypoint :: string
  request_body :: pyval
  status :: RequestStatus
  return_value :: pyval
  error :: pyval
  pid :: "int option"

text \<open>
  \<^verbatim>\<open>class RequestTaskPayload\<close>, the row as stored; its fields carry the same names in the
  source and are prefixed here. The three JSON columns hold documents.
\<close>

record RequestTaskPayload =
  payload_request_id :: string
  payload_name :: string
  payload_entrypoint :: string
  payload_request_body :: json
  payload_status :: string
  payload_return_value :: json
  payload_error :: json
  payload_pid :: "int option"

text \<open>The message that the handler \<^verbatim>\<open>except TypeError\<close> of \<^verbatim>\<open>encode\<close> prints.\<close>

definition diagnostic :: "RequestTask \<Rightarrow> out_item list" where
  "diagnostic self =
     [Text ''Error encoding.'', Text (request_id self), Text (name self),
      Shown (request_body self), Shown (return_value self)]"

text \<open>
  The handler \<^verbatim>\<open>except TypeError\<close> of \<^verbatim>\<open>encode\<close>: it formats the request body and the
  return value into the message, prints it and re-raises. An exception raised while
  formatting or printing replaces the TypeError, and one that is not a TypeError is not
  caught by the handler at all.
\<close>

definition encode_except ::
  "interpreter \<Rightarrow> RequestTask \<Rightarrow> py_error
     \<Rightarrow> out_item list list \<times> (py_error + RequestTaskPayload)" where
  "encode_except py self e =
     (if e = TypeError
      then
        (case str_error py (request_body self) of
           Some e' \<Rightarrow> ([], Inl e')
         | None \<Rightarrow>
             (case str_error py (return_value self) of
                Some e' \<Rightarrow> ([], Inl e')
              | None \<Rightarrow>
                  (case stdout_error py (diagnostic self) of
                     Some we \<Rightarrow> ([], Inl (write_raises we))
                   | None \<Rightarrow> ([diagnostic self], Inl e))))
      else ([], Inl e))"

text \<open>
  \<^verbatim>\<open>RequestTask.encode\<close>: the result is what was printed and either the exception raised
  or the payload. The keyword arguments are evaluated in the order written.
\<close>

definition encode ::
  "interpreter \<Rightarrow> RequestTask \<Rightarrow> out_item list list \<times> (py_error + RequestTaskPayload)" where
  "encode py self =
     (case json_dumps py (request_body self) of
        Inl e \<Rightarrow> encode_except py self e
      | Inr body \<Rightarrow>
          (case json_dumps py (return_value self) of
             Inl e \<Rightarrow> encode_except py self e
           | Inr ret \<Rightarrow>
               (case json_dumps py (error self) of
                  Inl e \<Rightarrow> encode_except py self e
                | Inr err \<Rightarrow>
                    ([], Inr \<lparr>payload_request_id = request_id self,
                              payload_name = name self,
                              payload_entrypoint = entrypoint self,
                              payload_request_body = body,
                              payload_status = status_value (status self),
                              payload_return_value = ret,
                              payload_error = err,
                              payload_pid = pid self\<rparr>))))"

text \<open>\<^verbatim>\<open>RequestTask.decode\<close>; the keyword arguments are evaluated in the order written.\<close>

definition decode :: "interpreter \<Rightarrow> RequestTaskPayload \<Rightarrow> py_error + RequestTask" where
  "decode py payload =
     (case json_loads py (payload_request_body payload) of
        Inl e \<Rightarrow> Inl e
      | Inr body \<Rightarrow>
          (case RequestStatus_of_value (payload_status payload) of
             Inl e \<Rightarrow> Inl e
           | Inr st \<Rightarrow>
               (case json_loads py (payload_return_value payload) of
                  Inl e \<Rightarrow> Inl e
                | Inr ret \<Rightarrow>
                    (case json_loads py (payload_error payload) of
                       Inl e \<Rightarrow> Inl e
                     | Inr err \<Rightarrow>
                         Inr \<lparr>request_id = payload_request_id payload,
                              name = payload_name payload,
                              entrypoint = payload_entrypoint payload,
                              request_body = body,
                              status = st,
                              return_value = ret,
                              error = err,
                              pid = payload_pid payload\<rparr>))))"

text \<open>
  \<^verbatim>\<open>x[key]\<close> with a string key: a dict looks the key up and raises KeyError when it is
  missing; no other value of the model accepts a string subscript (TypeError).
\<close>

fun getitem :: "pyval \<Rightarrow> string \<Rightarrow> py_error + pyval" where
  "getitem (PDict kvs) k =
     (case map_of kvs (PStr k) of None \<Rightarrow> Inl KeyError | Some v \<Rightarrow> Inr v)"
| "getitem _ k = Inl TypeError"

text \<open>
  \<^verbatim>\<open>RequestTask.set_error\<close>. The helper \<^verbatim>\<open>encoders._pickle_and_encode\<close> is not among the
  sources; it is the parameter \<open>pickle_and_encode\<close>, a function that returns a value or
  raises. An exception of the helper leaves the record as it was.
\<close>

definition set_error ::
  "(py_exception \<Rightarrow> py_error + pyval) \<Rightarrow> py_exception \<Rightarrow> RequestTask \<Rightarrow> py_error + RequestTask"
where
  "set_error pickle_and_encode err self =
     (case pickle_and_encode err of
        Inl e \<Rightarrow> Inl e
      | Inr obj \<Rightarrow>
          Inr (self\<lparr>error :=
                 PDict [(PStr ''object'', obj),
                        (PStr ''type'', PStr (exc_type_name err)),
                        (PStr ''message'', PStr (exc_str err))]\<rparr>))"

text \<open>
  \<^verbatim>\<open>RequestTask.get_error\<close>, with \<^verbatim>\<open>decoders._decode_and_unpickle\<close> as the parameter
  \<open>decode_and_unpickle\<close>. The entries of the result are evaluated in the order written.
\<close>

definition get_error ::
  "(pyval \<Rightarrow> py_error + pyval) \<Rightarrow> RequestTask \<Rightarrow> py_error + pyval" where
  "get_error decode_and_unpickle self =
     (if error self = PNone then Inr PNone
      else
        (case getitem (error self) ''object'' of
           Inl e \<Rightarrow> Inl e
         | Inr stored \<Rightarrow>
             (case decode_and_unpickle stored of
                Inl e \<Rightarrow> Inl e
              | Inr obj \<Rightarrow>
                  (case getitem (error self) ''type'' of
                     Inl e \<Rightarrow> Inl e
                   | Inr t \<Rightarrow>
                       (case getitem (error self) ''message'' of
                          Inl e \<Rightarrow> Inl e
                        | Inr m \<Rightarrow>
                            Inr (PDict [(PStr ''object'', obj),
                                        (PStr ''type'', t),
                                        (PStr ''message'', m)]))))))"

text \<open>
  \<^verbatim>\<open>RequestTask.set_return_value\<close> and \<^verbatim>\<open>get_return_value\<close>. The registries
  \<^verbatim>\<open>encoders.get_handler\<close> and \<^verbatim>\<open>decoders.get_handler\<close> are not among the sources; each is
  the parameter \<open>get_handler\<close>: the lookup by name returns a handler or raises, and the
  handler returns a value or raises.
\<close>

definition set_return_value ::
  "(string \<Rightarrow> py_error + (pyval \<Rightarrow> py_error + pyval)) \<Rightarrow> pyval \<Rightarrow> RequestTask
     \<Rightarrow> py_error + RequestTask" where
  "set_return_value get_handler v self =
     (case get_handler (name self) of
        Inl e \<Rightarrow> Inl e
      | Inr handler \<Rightarrow>
          (case handler v of
             Inl e \<Rightarrow> Inl e
           | Inr x \<Rightarrow> Inr (self\<lparr>return_value := x\<rparr>)))"

definition get_return_value ::
  "(string \<Rightarrow> py_error + (pyval \<Rightarrow> py_error + pyval)) \<Rightarrow> RequestTask \<Rightarrow> py_error + pyval"
where
  "get_return_value get_handler self =
     (case get_handler (name self) of
        Inl e \<Rightarrow> Inl e
      | Inr handler \<Rightarrow> handler (return_value self))"


text \<open>
  The expression \<^verbatim>\<open>RequestTask.decode(task.encode())\<close> of the round-trip law; an exception
  of \<^verbatim>\<open>encode\<close> propagates.
\<close>

definition decode_encode :: "interpreter \<Rightarrow> RequestTask \<Rightarrow> py_error + RequestTask" where
  "decode_encode py self =
     (case snd (encode py self) of Inl e \<Rightarrow> Inl e | Inr payload \<Rightarrow> decode py payload)"

section \<open>The store\<close>

text \<open>
  What the module does to its surroundings, in order: the connection made, statements
  run by sqlite, the removal of the database file, and the per-request file locks taken
  and given back.
\<close>

datatype event =
    Connect
  | CreateTable
  | Unlink
  | Acquire string
  | Release string
  | Select string
  | Upsert string

text \<open>
  How \<^verbatim>\<open>PRAGMA journal_mode=WAL\<close> ends: it succeeds, or fails with an OperationalError
  whose text has \<^verbatim>\<open>database is locked\<close> in it, or fails with another OperationalError.
\<close>

datatype pragma_outcome = PragmaOk | DatabaseLocked | OtherOperationalError

text \<open>The table \<^verbatim>\<open>rest_tasks\<close>: at most one row per primary key \<^verbatim>\<open>request_id\<close>.\<close>

type_synonym rest_tasks = "string \<rightharpoonup> RequestTaskPayload"

text \<open>
  The process and the file system it runs on. File objects are numbered; \<open>db_file\<close> is
  the file object that the path \<^verbatim>\<open>_DB_PATH\<close> names (if the file exists), \<open>files\<close> gives the
  table in each file object (\<open>None\<close>: the file has no table \<^verbatim>\<open>rest_tasks\<close>), and \<open>DB\<close> is the
  module global \<^verbatim>\<open>_DB\<close>: unset, or a connection open on a file object. A connection and
  the path are two references to file objects, so removing the path leaves an open
  connection on the file object it had.

  The rest is what the surroundings answer. \<open>is_wsl\<close> is \<^verbatim>\<open>common_utils.is_wsl()\<close>,
  \<open>journal_mode_pragma\<close> is how the PRAGMA ends, and \<open>sqlite_raises\<close> tells for the
  connection and for each other statement whether sqlite raises an OperationalError on
  it (the database is locked, the disk fails, files of a removed database are in the
  way). \<open>lock_denied\<close> is the exception, if any, with which the file system refuses to
  open a lock file whose name is in order. \<open>python\<close> is the interpreter.
\<close>

record world =
  db_file :: "nat option"
  files :: "nat \<Rightarrow> rest_tasks option"
  fresh :: nat
  DB :: "nat option"
  is_wsl :: bool
  journal_mode_pragma :: pragma_outcome
  sqlite_raises :: "event \<Rightarrow> bool"
  lock_denied :: "string \<Rightarrow> py_error option"
  python :: interpreter
  stdout :: "out_item list list"
  events :: "event list"

text \<open>
  \<^verbatim>\<open>create_table(cursor, conn)\<close> on the file object of the connection: outside WSL the
  PRAGMA runs first, a locked database is ignored and any other OperationalError is
  raised again; then \<^verbatim>\<open>CREATE TABLE IF NOT EXISTS\<close> runs, unguarded.
\<close>

definition create_table :: "world \<Rightarrow> nat \<Rightarrow> world \<times> (py_error + unit)" where
  "create_table w c =
     (if \<not> is_wsl w \<and> journal_mode_pragma w = OtherOperationalError
      then (w, Inl OperationalError)
      else if sqlite_raises w CreateTable
      then (w, Inl OperationalError)
      else
        (w\<lparr>files := (files w)(c := Some (case files w c of None \<Rightarrow> Map.empty | Some t \<Rightarrow> t)),
           events := events w @ [CreateTable]\<rparr>, Inr ()))"

text \<open>
  Modelled from the spec: \<^verbatim>\<open>db_utils.SQLiteConn(_DB_PATH, create_table)\<close>, whose class is
  not among the sources. It opens the file at the path, creating an empty one when there
  is none, and runs \<^verbatim>\<open>create_table\<close> on the connection (the specification's
  \<^verbatim>\<open>ensure_schema\<close>: "creates the table if absent").
\<close>

definition SQLiteConn :: "world \<Rightarrow> world \<times> (py_error + nat)" where
  "SQLiteConn w =
     (if sqlite_raises w Connect then (w, Inl OperationalError)
      else
        (case db_file w of
           Some c \<Rightarrow>
             (case create_table (w\<lparr>events := events w @ [Connect]\<rparr>) c of
                (w1, Inl e) \<Rightarrow> (w1, Inl e)
              | (w1, Inr u) \<Rightarrow> (w1, Inr c))
         | None \<Rightarrow>
             (case create_table
                     (w\<lparr>db_file := Some (fresh w), files := (files w)(fresh w := None),
                        fresh := Suc (fresh w), events := events w @ [Connect]\<rparr>) (fresh w) of
                (w1, Inl e) \<Rightarrow> (w1, Inl e)
              | (w1, Inr u) \<Rightarrow> (w1, Inr (fresh w)))))"

text \<open>
  The prologue that the decorator \<^verbatim>\<open>init_db\<close> puts before each decorated function: the
  connection is made only while \<^verbatim>\<open>_DB is None\<close>; when \<^verbatim>\<open>SQLiteConn\<close> raises, the
  assignment does not happen.
\<close>

definition init_db :: "world \<Rightarrow> world \<times> (py_error + unit)" where
  "init_db w =
     (case DB w of
        Some c \<Rightarrow> (w, Inr ())
      | None \<Rightarrow>
          (case SQLiteConn w of
             (w1, Inl e) \<Rightarrow> (w1, Inl e)
           | (w1, Inr c) \<Rightarrow> (w1\<lparr>DB := Some c\<rparr>, Inr ())))"

text \<open>
  Modelled from the spec: \<^verbatim>\<open>common_utils.remove_file_if_exists(_DB_PATH)\<close>, not among the
  sources ("deletes the entire backing file"). \<^verbatim>\<open>reset_db\<close> calls nothing else; it does not
  touch \<^verbatim>\<open>_DB\<close>.
\<close>

definition reset_db :: "world \<Rightarrow> world" where
  "reset_db w =
     (case db_file w of
        None \<Rightarrow> w
      | Some c \<Rightarrow> w\<lparr>db_file := None, events := events w @ [Unlink]\<rparr>)"

text \<open>
  \<^verbatim>\<open>request_lock_path\<close>: the lock file beside the database file; \<^verbatim>\<open>~\<close> stands for the
  expanded home directory. The parameter \<^verbatim>\<open>request_id\<close> of the source's functions is
  written \<open>rid\<close> from here on, the name being taken by the record field.
\<close>

definition request_lock_path :: "string \<Rightarrow> string" where
  "request_lock_path rid = ''~/.sky/api_server/.'' @ rid @ ''.lock''"

text \<open>The last component of a path: what follows its last slash.\<close>

definition basename :: "string \<Rightarrow> string" where
  "basename p = rev (takeWhile (\<lambda>c. c \<noteq> CHR ''/'') (rev p))"

text \<open>
  Entering \<^verbatim>\<open>with filelock.FileLock(path)\<close> opens the lock file. The exception this
  raises, if any: ValueError for a path with a NUL character in it, OSError for a file
  name of more than 255 bytes, and otherwise what the file system answers. (A lock held
  elsewhere makes the caller wait; no timeout is set, so waiting raises nothing.)
\<close>

definition lock_error :: "world \<Rightarrow> string \<Rightarrow> py_error option" where
  "lock_error w p =
     (if CHR 0x00 \<in> set p then Some ValueError
      else if 255 < length (basename p) then Some OSError
      else lock_denied w p)"

text \<open>
  \<^verbatim>\<open>from_row\<close> and \<^verbatim>\<open>to_row\<close>: the row lists the payload's fields in the order of
  \<^verbatim>\<open>REQUEST_TASK_COLUMNS\<close>, which is the order of the payload's fields, so the stored row
  is the payload.
\<close>

definition from_row :: "interpreter \<Rightarrow> RequestTaskPayload \<Rightarrow> py_error + RequestTask" where
  "from_row py row = decode py row"

definition to_row ::
  "interpreter \<Rightarrow> RequestTask \<Rightarrow> out_item list list \<times> (py_error + RequestTaskPayload)" where
  "to_row py self = encode py self"

text \<open>
  \<^verbatim>\<open>_get_rest_task_no_lock\<close>. The assertion on \<^verbatim>\<open>_DB\<close> and sqlite's answers to the
  statement (it raises; the table is missing) are branches of the model.
\<close>

definition get_rest_task_no_lock ::
  "world \<Rightarrow> string \<Rightarrow> world \<times> (py_error + RequestTask option)" where
  "get_rest_task_no_lock w rid =
     (case DB w of
        None \<Rightarrow> (w, Inl AssertionError)
      | Some c \<Rightarrow>
          (if sqlite_raises w (Select rid) then (w, Inl OperationalError)
           else
             (case files w c of
                None \<Rightarrow> (w, Inl OperationalError)
              | Some t \<Rightarrow>
                  (case t rid of
                     None \<Rightarrow> (w\<lparr>events := events w @ [Select rid]\<rparr>, Inr None)
                   | Some row \<Rightarrow>
                       (case from_row (python w) row of
                          Inl e \<Rightarrow> (w\<lparr>events := events w @ [Select rid]\<rparr>, Inl e)
                        | Inr task \<Rightarrow>
                            (w\<lparr>events := events w @ [Select rid]\<rparr>, Inr (Some task)))))))"

text \<open>
  \<^verbatim>\<open>get_request\<close>: after the prologue of \<^verbatim>\<open>init_db\<close> the lock of the request is taken,
  held around the read and given back on every way out of the \<^verbatim>\<open>with\<close> block. When the
  lock cannot be taken the block does not run.
\<close>

definition get_request :: "world \<Rightarrow> string \<Rightarrow> world \<times> (py_error + RequestTask option)" where
  "get_request w rid =
     (case init_db w of
        (w1, Inl e) \<Rightarrow> (w1, Inl e)
      | (w1, Inr u) \<Rightarrow>
          (case lock_error w1 (request_lock_path rid) of
             Some e \<Rightarrow> (w1, Inl e)
           | None \<Rightarrow>
               (case get_rest_task_no_lock
                       (w1\<lparr>events := events w1 @ [Acquire (request_lock_path rid)]\<rparr>) rid of
                  (w2, r) \<Rightarrow>
                    (w2\<lparr>events := events w2 @ [Release (request_lock_path rid)]\<rparr>, r))))"

text \<open>
  A value sqlite stores in an \<^verbatim>\<open>INTEGER\<close> column: \<^verbatim>\<open>None\<close>, or an integer of 64 bits;
  binding another integer raises OverflowError.
\<close>

definition sqlite_integer :: "int option \<Rightarrow> bool" where
  "sqlite_integer p =
     (case p of
        None \<Rightarrow> True
      | Some i \<Rightarrow> - 9223372036854775808 \<le> i \<and> i < 9223372036854775808)"

text \<open>
  \<^verbatim>\<open>_dump_request_no_lock\<close>: the row is made first (encoding may print and raise), then
  \<^verbatim>\<open>INSERT OR REPLACE\<close> puts it under its primary key.
\<close>

definition dump_request_no_lock :: "world \<Rightarrow> RequestTask \<Rightarrow> world \<times> (py_error + unit)" where
  "dump_request_no_lock w request_task =
     (case to_row (python w) request_task of
        (out, Inl e) \<Rightarrow> (w\<lparr>stdout := stdout w @ out\<rparr>, Inl e)
      | (out, Inr row) \<Rightarrow>
          (case DB w of
             None \<Rightarrow> (w\<lparr>stdout := stdout w @ out\<rparr>, Inl AssertionError)
           | Some c \<Rightarrow>
               (if \<not> sqlite_integer (payload_pid row)
                then (w\<lparr>stdout := stdout w @ out\<rparr>, Inl OverflowError)
                else if sqlite_raises w (Upsert (payload_request_id row))
                then (w\<lparr>stdout := stdout w @ out\<rparr>, Inl OperationalError)
                else
                  (case files w c of
                     None \<Rightarrow> (w\<lparr>stdout := stdout w @ out\<rparr>, Inl OperationalError)
                   | Some t \<Rightarrow>
                       (w\<lparr>files := (files w)(c := Some (t(payload_request_id row \<mapsto> row))),
                          stdout := stdout w @ out,
                          events := events w @ [Upsert (payload_request_id row)]\<rparr>,
                        Inr ())))))"

text \<open>\<^verbatim>\<open>dump_reqest\<close> (the source's spelling).\<close>

definition dump_reqest :: "world \<Rightarrow> RequestTask \<Rightarrow> world \<times> (py_error + unit)" where
  "dump_reqest w request =
     (case init_db w of
        (w1, Inl e) \<Rightarrow> (w1, Inl e)
      | (w1, Inr u) \<Rightarrow>
          (case lock_error w1 (request_lock_path (request_id request)) of
             Some e \<Rightarrow> (w1, Inl e)
           | None \<Rightarrow>
               (case dump_request_no_lock
                       (w1\<lparr>events :=
                             events w1 @ [Acquire (request_lock_path (request_id request))]\<rparr>)
                       request of
                  (w2, r) \<Rightarrow>
                    (w2\<lparr>events :=
                          events w2 @ [Release (request_lock_path (request_id request))]\<rparr>,
                     r))))"

text \<open>
  \<^verbatim>\<open>update_rest_task\<close> is a generator used as a context manager, so it runs in two
  parts. Entering the \<^verbatim>\<open>with\<close> statement runs it up to the \<^verbatim>\<open>yield\<close>: the prologue of
  \<^verbatim>\<open>init_db\<close>, then the read. Leaving the block normally runs the rest: the object that
  was yielded, as the block left it, is written back unless there was none.
\<close>

definition update_rest_task_enter ::
  "world \<Rightarrow> string \<Rightarrow> world \<times> (py_error + RequestTask option)" where
  "update_rest_task_enter w rid =
     (case init_db w of
        (w1, Inl e) \<Rightarrow> (w1, Inl e)
      | (w1, Inr u) \<Rightarrow> get_rest_task_no_lock w1 rid)"

definition update_rest_task_exit ::
  "world \<Rightarrow> RequestTask option \<Rightarrow> world \<times> (py_error + unit)" where
  "update_rest_task_exit w rest_task =
     (case rest_task of
        None \<Rightarrow> (w, Inr ())
      | Some task \<Rightarrow> dump_request_no_lock w task)"

text \<open>
  \<^verbatim>\<open>with update_rest_task(request_id) as rest_task: body\<close>, run without interruption.
  The block gets the object read (or \<^verbatim>\<open>None\<close>); \<open>body\<close> gives the object as the block
  leaves it, or the exception the block raises, in which case the generator is not
  resumed past its \<^verbatim>\<open>yield\<close>. A block that got \<^verbatim>\<open>None\<close> has no object to change.
\<close>

definition update_rest_task ::
  "world \<Rightarrow> string \<Rightarrow> (RequestTask option \<Rightarrow> py_error + RequestTask option)
     \<Rightarrow> world \<times> (py_error + unit)" where
  "update_rest_task w rid body =
     (case update_rest_task_enter w rid of
        (w1, Inl e) \<Rightarrow> (w1, Inl e)
      | (w1, Inr rest_task) \<Rightarrow>
          (case body rest_task of
             Inl e \<Rightarrow> (w1, Inl e)
           | Inr left \<Rightarrow>
               update_rest_task_exit w1 (if rest_task = None then None else left)))"

text \<open>
  Two callers in two \<^verbatim>\<open>with update_rest_task(request_id)\<close> blocks on the same request,
  each block changing its object by a function. In the first schedule both callers enter
  before either leaves; in the second the first caller leaves before the second enters.
\<close>

definition updates_interleaved ::
  "world \<Rightarrow> string \<Rightarrow> (RequestTask \<Rightarrow> RequestTask) \<Rightarrow> (RequestTask \<Rightarrow> RequestTask) \<Rightarrow> world" where
  "updates_interleaved w rid f g =
     (case update_rest_task_enter w rid of
        (w1, a) \<Rightarrow>
          (case update_rest_task_enter w1 rid of
             (w2, b) \<Rightarrow>
               (case update_rest_task_exit w2
                       (case a of Inl e \<Rightarrow> None | Inr t \<Rightarrow> map_option f t) of
                  (w3, u) \<Rightarrow>
                    fst (update_rest_task_exit w3
                           (case b of Inl e \<Rightarrow> None | Inr t \<Rightarrow> map_option g t)))))"

definition updates_serial ::
  "world \<Rightarrow> string \<Rightarrow> (RequestTask \<Rightarrow> RequestTask) \<Rightarrow> (RequestTask \<Rightarrow> RequestTask) \<Rightarrow> world" where
  "updates_serial w rid f g =
     fst (update_rest_task
            (fst (update_rest_task w rid (\<lambda>t. Inr (map_option f t))))
            rid (\<lambda>t. Inr (map_option g t)))"

text \<open>
  The rows a reader of the store finds: those of the file object the connection is open
  on, or, before the process has a connection, those of the file at the path.
\<close>

definition stored_rows :: "world \<Rightarrow> rest_tasks" where
  "stored_rows w =
     (case (case DB w of Some c \<Rightarrow> Some c | None \<Rightarrow> db_file w) of
        None \<Rightarrow> Map.empty
      | Some c \<Rightarrow> (case files w c of None \<Rightarrow> Map.empty | Some t \<Rightarrow> t))"

text \<open>The file at the path exists and holds the table.\<close>

definition schema_exists :: "world \<Rightarrow> bool" where
  "schema_exists w =
     (case db_file w of
        None \<Rightarrow> False
      | Some c \<Rightarrow> (case files w c of None \<Rightarrow> False | Some t \<Rightarrow> True))"

text \<open>
  A first connection would be made: connecting, the PRAGMA and \<^verbatim>\<open>CREATE TABLE\<close> would
  not raise.
\<close>

definition first_connection_ok :: "world \<Rightarrow> bool" where
  "first_connection_ok w =
     (\<not> sqlite_raises w Connect \<and>
      (is_wsl w \<or> journal_mode_pragma w \<noteq> OtherOperationalError) \<and>
      \<not> sqlite_raises w CreateTable)"

text \<open>
  The store answers: a first connection would be made, and a connection that is open
  has its table (\<^verbatim>\<open>SQLiteConn\<close> made it).
\<close>

definition store_usable :: "world \<Rightarrow> bool" where
  "store_usable w =
     (case DB w of
        None \<Rightarrow> first_connection_ok w
      | Some c \<Rightarrow> (case files w c of None \<Rightarrow> False | Some t \<Rightarrow> True))"

text \<open>The lock of a request can be taken: opening its lock file raises nothing.\<close>

definition lock_free :: "world \<Rightarrow> string \<Rightarrow> bool" where
  "lock_free w rid = (case lock_error w (request_lock_path rid) of None \<Rightarrow> True | Some e \<Rightarrow> False)"

fun is_upsert :: "event \<Rightarrow> bool" where
  "is_upsert (Upsert k) = True"
| "is_upsert _ = False"

fun is_lock_event :: "event \<Rightarrow> bool" where
  "is_lock_event (Acquire p) = True"
| "is_lock_event (Release p) = True"
| "is_lock_event _ = False"

section \<open>Example inputs\<close>

text \<open>
  An interpreter with the default digit limit, room for some hundred nested containers,
  a standard output that takes every message, and \<^verbatim>\<open>float.__repr__\<close> as far as the
  examples need it.
\<close>

definition cpython :: interpreter where
  "cpython =
     \<lparr>int_max_str_digits = 4300, encoder_depth = 900, decoder_depth = 900, repr_depth = 300,
      float_repr = (\<lambda>b. if b = 0x3FF8000000000000 then ''1.5'' else ''0.0''),
      stdout_error = (\<lambda>m. None)\<rparr>"

text \<open>A process that has not touched the store, on a machine without the database file.\<close>

definition new_process :: world where
  "new_process =
     \<lparr>db_file = None, files = (\<lambda>c. None), fresh = 0, DB = None, is_wsl = False,
      journal_mode_pragma = PragmaOk, sqlite_raises = (\<lambda>s. False),
      lock_denied = (\<lambda>p. None), python = cpython, stdout = [], events = []\<rparr>"

definition example_task :: RequestTask where
  "example_task =
     \<lparr>request_id = ''r1'', name = ''echo'', entrypoint = ''echo'',
      request_body = PDict [(PStr ''x'', PInt 1)], status = PENDING,
      return_value = PNone, error = PNone, pid = None\<rparr>"

text \<open>A finished task whose return value holds a float (1.5) and a nested list.\<close>

definition float_task :: RequestTask where
  "float_task =
     example_task\<lparr>status := SUCCEEDED,
                   return_value := PList [PFloat 0x3FF8000000000000, PList [PInt (- 42)]],
                   pid := Some 123\<rparr>"

definition tuple_task :: RequestTask where
  "tuple_task = example_task\<lparr>return_value := PTuple [PInt 1, PInt 2]\<rparr>"

definition bad_input :: py_exception where
  "bad_input = PyException ''ValueError'' ''bad input'' []"



definition empty_error_task :: RequestTask where
  "empty_error_task = example_task\<lparr>error := PDict []\<rparr>"

definition failed_task :: RequestTask where
  "failed_task =
     example_task\<lparr>status := FAILED,
                   error := PDict [(PStr ''object'', PStr ''gASV''),
                                   (PStr ''type'', PStr ''ValueError''),
                                   (PStr ''message'', PStr ''bad input'')]\<rparr>"

definition failed_task_pending :: RequestTask where
  "failed_task_pending = failed_task\<lparr>status := PENDING\<rparr>"

text \<open>A pickling pair that knows one exception, and a registry with one handler.\<close>

definition example_pickle :: "py_exception \<Rightarrow> py_error + pyval" where
  "example_pickle e = (if e = bad_input then Inr (PStr ''gASV'') else Inl TypeError)"

definition example_unpickle :: "pyval \<Rightarrow> py_error + pyval" where
  "example_unpickle v =
     (if v = PStr ''gASV'' then Inr (PException bad_input) else Inl ValueError)"

definition example_handlers :: "string \<Rightarrow> py_error + (pyval \<Rightarrow> py_error + pyval)" where
  "example_handlers n = (if n = ''echo'' then Inr (\<lambda>v. Inr v) else Inl KeyError)"

text \<open>The process after it has written the example task: connected, one row stored.\<close>

definition serving_process :: world where
  "serving_process = fst (dump_reqest new_process example_task)"

text \<open>The row that \<^verbatim>\<open>to_row\<close> makes of the example task.\<close>

definition example_row :: RequestTaskPayload where
  "example_row =
     \<lparr>payload_request_id = ''r1'', payload_name = ''echo'', payload_entrypoint = ''echo'',
      payload_request_body = JObj [(''x'', JInt 1)], payload_status = ''PENDING'',
      payload_return_value = JNull, payload_error = JNull, payload_pid = None\<rparr>"

text \<open>A process started later on the same machine: the file is there, \<^verbatim>\<open>_DB\<close> is unset.\<close>

definition restarted_process :: world where
  "restarted_process = serving_process\<lparr>DB := None\<rparr>"

text \<open>A request id that is no file name: it has a NUL character in it.\<close>

definition nul_id :: string where
  "nul_id = ''r'' @ [CHR 0x00] @ ''1''"

text \<open>Two bodies of an update block: the worker starts, and the worker's pid is noted.\<close>

definition start_running :: "RequestTask \<Rightarrow> RequestTask" where
  "start_running t = t\<lparr>status := RUNNING\<rparr>"

definition record_pid :: "RequestTask \<Rightarrow> RequestTask" where
  "record_pid t = t\<lparr>pid := Some 123\<rparr>"

definition pid_row :: RequestTaskPayload where
  "pid_row = example_row\<lparr>payload_pid := Some 123\<rparr>"

definition running_row :: RequestTaskPayload where
  "running_row = example_row\<lparr>payload_status := ''RUNNING''\<rparr>"

definition running_pid_row :: RequestTaskPayload where
  "running_pid_row = example_row\<lparr>payload_status := ''RUNNING'', payload_pid := Some 123\<rparr>"

section \<open>Theorems\<close>

lemma list_index_RequestStatus:
  "list_index RequestStatus_list s = Some (declaration_position s)"
  by (cases s) (simp_all add: RequestStatus_list_def)

text \<open>
  Claim C7. For every pair of statuses \<open>s1\<close>, \<open>s2\<close> the comparison \<open>s1 > s2\<close> returns (it
  never raises) and is true exactly when the position of \<open>s1\<close> in the declaration order
  PENDING, RUNNING, SUCCEEDED, FAILED, ABORTED is strictly greater than that of \<open>s2\<close>.
\<close>

theorem status_gt_declaration_order:
  "status_gt s1 s2 = Some (declaration_position s2 < declaration_position s1)"
  by (simp add: status_gt_def list_index_RequestStatus)

subsection \<open>The JSON codec\<close>

lemma dict_of_pairs_append:
  "distinct (map fst (acc @ kvs)) \<Longrightarrow>
   foldl (\<lambda>d kv. AList.update (fst kv) (snd kv) d) acc kvs = acc @ kvs"
proof (induction kvs arbitrary: acc)
  case Nil
  then show ?case by simp
next
  case (Cons kv kvs)
  have "AList.update (fst kv) (snd kv) acc = acc @ [kv]"
    using Cons.prems by (induction acc) auto
  then show ?case using Cons.IH [of "acc @ [kv]"] Cons.prems by simp
qed

lemma dict_of_pairs_distinct:
  "distinct (map fst kvs) \<Longrightarrow> dict_of_pairs kvs = kvs"
  using dict_of_pairs_append [of "[]" kvs] by (simp add: dict_of_pairs_def)

lemma loads_dumps_native:
  shows "\<And>d e e'. native_at py v d \<Longrightarrow> d \<le> e \<Longrightarrow> d \<le> e' \<Longrightarrow>
           \<exists>j. dumps_at py v e = Inr j \<and> loads_at py j e' = Inr v"
    and "\<And>d e e'. native_list py xs d \<Longrightarrow> d \<le> e \<Longrightarrow> d \<le> e' \<Longrightarrow>
           \<exists>js. dumps_list py xs e = Inr js \<and> loads_list py js e' = Inr xs"
    and "\<And>d e e'. native_item py kv d \<Longrightarrow> d \<le> e \<Longrightarrow> d \<le> e' \<Longrightarrow>
           \<exists>m. dumps_item py kv e = Inr m \<and> loads_member py m e' = Inr kv"
    and "\<And>d e e'. native_items py kvs d \<Longrightarrow> d \<le> e \<Longrightarrow> d \<le> e' \<Longrightarrow>
           \<exists>ms. dumps_items py kvs e = Inr ms \<and> loads_members py ms e' = Inr kvs"
proof (induct v and xs and kv and kvs
    rule: dumps_at.induct dumps_list.induct dumps_item.induct dumps_items.induct)
  case (PList xs)
  from PList.prems obtain d0 e0 e0' where "d = Suc d0" "e = Suc e0" "e' = Suc e0'"
    by (cases d; cases e; cases e') auto
  with PList.prems PList.hyps [of d0 e0 e0'] show ?case by auto
next
  case (PDict kvs)
  from PDict.prems obtain d0 e0 e0' where "d = Suc d0" "e = Suc e0" "e' = Suc e0'"
    by (cases d; cases e; cases e') auto
  with PDict.prems PDict.hyps [of d0 e0 e0'] show ?case
    by (auto simp: dict_of_pairs_distinct)
next
  case (Cons_pyval x xs)
  from Cons_pyval.prems have n: "native_at py x d" "native_list py xs d" by simp_all
  obtain j where j: "dumps_at py x e = Inr j" "loads_at py j e' = Inr x"
    using Cons_pyval.hyps(1) [OF n(1) Cons_pyval.prems(2,3)] by blast
  obtain js where js: "dumps_list py xs e = Inr js" "loads_list py js e' = Inr xs"
    using Cons_pyval.hyps(2) [OF n(2) Cons_pyval.prems(2,3)] by blast
  show ?case by (simp add: j js)
next
  case (Pair_pyval_pyval k v)
  from Pair_pyval_pyval.prems obtain s where k: "k = PStr s" and n: "native_at py v d"
    by (cases k) auto
  obtain j where j: "dumps_at py v e = Inr j" "loads_at py j e' = Inr v"
    using Pair_pyval_pyval.hyps(2) [OF n Pair_pyval_pyval.prems(2,3)] by blast
  show ?case by (simp add: k j)
next
  case (Cons_pyval_pyval_prod kv kvs)
  from Cons_pyval_pyval_prod.prems have n: "native_item py kv d" "native_items py kvs d"
    by simp_all
  obtain m where m: "dumps_item py kv e = Inr m" "loads_member py m e' = Inr kv"
    using Cons_pyval_pyval_prod.hyps(1) [OF n(1) Cons_pyval_pyval_prod.prems(2,3)] by blast
  obtain ms where ms: "dumps_items py kvs e = Inr ms" "loads_members py ms e' = Inr kvs"
    using Cons_pyval_pyval_prod.hyps(2) [OF n(2) Cons_pyval_pyval_prod.prems(2,3)] by blast
  show ?case by (simp add: m ms)
qed auto

lemma json_roundtrip:
  assumes "json_native py v"
  obtains j where "json_dumps py v = Inr j" and "json_loads py j = Inr v"
  using assms loads_dumps_native(1)
    [of py v "min (encoder_depth py) (decoder_depth py)" "encoder_depth py" "decoder_depth py"]
  by (auto simp: json_native_def json_dumps_def json_loads_def)

lemma json_native_representable: "json_native py v \<Longrightarrow> representable py v"
  by (erule json_roundtrip) (simp add: representable_def)

lemma RequestStatus_of_value_status_value:
  "RequestStatus_of_value (status_value s) = Inr s"
  by (cases s) (simp_all add: RequestStatus_of_value_def RequestStatus_list_def)

lemma cpython_fields:
  "int_max_str_digits cpython = 4300" "encoder_depth cpython = 900"
  "decoder_depth cpython = 900" "repr_depth cpython = 300" "stdout_error cpython m = None"
  by (simp_all add: cpython_def)

lemma small_int_not_too_long:
  "\<not> int_too_long cpython 1" "\<not> int_too_long cpython 2" "\<not> int_too_long cpython (- 42)"
  by (simp_all add: int_too_long_def cpython_fields)



subsection \<open>Encoding and decoding a task\<close>

text \<open>
  Claim C3, as amended. For every task whose \<^verbatim>\<open>request_body\<close>, \<^verbatim>\<open>return_value\<close> and
  \<^verbatim>\<open>error\<close> are values JSON has a form of its own for (\<^verbatim>\<open>None\<close>, booleans, integers
  within the interpreter's digit limit, floats other than NaN, strings, lists of such
  values and string-keyed dicts of such values, nested no deeper than the encoder and the
  decoder get), \<^verbatim>\<open>encode\<close> returns a payload and \<^verbatim>\<open>decode\<close> of that payload is the task
  itself, field by field; \<^verbatim>\<open>None\<close> in \<^verbatim>\<open>return_value\<close> or \<^verbatim>\<open>error\<close> is such a value.
\<close>

theorem decode_encode_json_native:
  assumes "json_native py (request_body self)"
    and "json_native py (return_value self)"
    and "json_native py (error self)"
  shows "decode_encode py self = Inr self"
proof -
  obtain b where b: "json_dumps py (request_body self) = Inr b"
      "json_loads py b = Inr (request_body self)"
    using assms(1) by (rule json_roundtrip)
  obtain r where r: "json_dumps py (return_value self) = Inr r"
      "json_loads py r = Inr (return_value self)"
    using assms(2) by (rule json_roundtrip)
  obtain e where e: "json_dumps py (error self) = Inr e" "json_loads py e = Inr (error self)"
    using assms(3) by (rule json_roundtrip)
  show "decode_encode py self = Inr self"
    by (simp add: decode_encode_def encode_def decode_def b r e
        RequestStatus_of_value_status_value)
qed

theorem decode_encode_json_native_witness:
  "json_native cpython (request_body float_task) \<and>
   json_native cpython (return_value float_task) \<and>
   json_native cpython (error float_task) \<and>
   return_value float_task = PList [PFloat 0x3FF8000000000000, PList [PInt (- 42)]] \<and>
   error float_task = PNone \<and>
   decode_encode cpython float_task = Inr float_task \<and>
   return_value example_task = PNone \<and> error example_task = PNone \<and>
   decode_encode cpython example_task = Inr example_task"
proof -
  have h: "json_native cpython (request_body float_task)"
    "json_native cpython (return_value float_task)"
    "json_native cpython (error float_task)"
    by (simp_all add: float_task_def example_task_def json_native_def cpython_fields
        small_int_not_too_long is_nan_def)
  have g: "json_native cpython (request_body example_task)"
    "json_native cpython (return_value example_task)"
    "json_native cpython (error example_task)"
    by (simp_all add: example_task_def json_native_def cpython_fields small_int_not_too_long)
  show ?thesis
    using h decode_encode_json_native [OF h] decode_encode_json_native [OF g]
    by (simp add: float_task_def example_task_def)
qed

text \<open>
  The claim as stated fails on a tuple: \<^verbatim>\<open>json.dumps\<close> accepts \<^verbatim>\<open>(1, 2)\<close> as
  \<^verbatim>\<open>return_value\<close>, so the field is representable, and \<^verbatim>\<open>decode\<close> gives back the list
  \<^verbatim>\<open>[1, 2]\<close>, which Python does not find equal to the tuple.
\<close>

theorem decode_encode_tuple_counterexample:
  "representable cpython (request_body tuple_task) \<and>
   representable cpython (return_value tuple_task) \<and>
   representable cpython (error tuple_task) \<and>
   decode_encode cpython tuple_task =
     Inr (tuple_task\<lparr>return_value := PList [PInt 1, PInt 2]\<rparr>) \<and>
   decode_encode cpython tuple_task \<noteq> Inr tuple_task"
  by (simp add: tuple_task_def example_task_def representable_def decode_encode_def
      encode_def decode_def json_dumps_def json_loads_def cpython_fields
      small_int_not_too_long RequestStatus_of_value_def RequestStatus_list_def
      dict_of_pairs_def)






subsection \<open>Errors and return values of a task\<close>



text \<open>
  Claim C9. When \<^verbatim>\<open>set_error\<close> returns, the record differs from the one before in the
  field \<^verbatim>\<open>error\<close> at most, and when \<^verbatim>\<open>set_return_value\<close> returns, in the field
  \<^verbatim>\<open>return_value\<close> at most: \<^verbatim>\<open>request_id\<close>, \<^verbatim>\<open>name\<close>, \<^verbatim>\<open>entrypoint\<close>,
  \<^verbatim>\<open>request_body\<close>, \<^verbatim>\<open>status\<close> and \<^verbatim>\<open>pid\<close> are as before in both cases. (When a helper
  raises, nothing is assigned.)
\<close>

theorem setters_change_one_field:
  "(set_error pickle_and_encode err self = Inr s1 \<longrightarrow>
      request_id s1 = request_id self \<and> name s1 = name self \<and>
      entrypoint s1 = entrypoint self \<and> request_body s1 = request_body self \<and>
      status s1 = status self \<and> pid s1 = pid self \<and>
      return_value s1 = return_value self) \<and>
   (set_return_value get_handler v self = Inr s2 \<longrightarrow>
      request_id s2 = request_id self \<and> name s2 = name self \<and>
      entrypoint s2 = entrypoint self \<and> request_body s2 = request_body self \<and>
      status s2 = status self \<and> pid s2 = pid self \<and>
      error s2 = error self)"
  by (auto simp: set_error_def set_return_value_def split: sum.splits)

theorem setters_change_one_field_witness:
  "set_error example_pickle bad_input example_task = Inr failed_task_pending \<and>
   set_return_value example_handlers (PInt 42) example_task =
     Inr (example_task\<lparr>return_value := PInt 42\<rparr>) \<and>
   request_id failed_task_pending = ''r1'' \<and> name failed_task_pending = ''echo'' \<and>
   entrypoint failed_task_pending = ''echo'' \<and>
   request_body failed_task_pending = PDict [(PStr ''x'', PInt 1)] \<and>
   status failed_task_pending = PENDING \<and> pid failed_task_pending = None \<and>
   return_value failed_task_pending = PNone \<and>
   error (example_task\<lparr>return_value := PInt 42\<rparr>) = PNone"
proof -
  have h1: "set_error example_pickle bad_input example_task = Inr failed_task_pending"
    by (simp add: set_error_def example_pickle_def failed_task_pending_def failed_task_def
        example_task_def bad_input_def)
  have h2: "set_return_value example_handlers (PInt 42) example_task =
      Inr (example_task\<lparr>return_value := PInt 42\<rparr>)"
    by (simp add: set_return_value_def example_handlers_def example_task_def)
  from setters_change_one_field
      [of example_pickle bad_input example_task failed_task_pending example_handlers
        "PInt 42" "example_task\<lparr>return_value := PInt 42\<rparr>"] h1 h2
  show ?thesis by (simp add: example_task_def failed_task_pending_def failed_task_def)
qed

text \<open>
  Claim C10, as amended. \<^verbatim>\<open>get_error\<close> returns \<^verbatim>\<open>None\<close> if and only if the field
  \<^verbatim>\<open>error\<close> is \<^verbatim>\<open>None\<close>. When the field is a dict that has the keys \<^verbatim>\<open>object\<close>, \<^verbatim>\<open>type\<close>
  and \<^verbatim>\<open>message\<close>, as \<^verbatim>\<open>set_error\<close> writes it, and the unpickling helper returns,
  \<^verbatim>\<open>get_error\<close> returns a dict with exactly the keys \<^verbatim>\<open>object\<close>, \<^verbatim>\<open>type\<close> and
  \<^verbatim>\<open>message\<close>.
\<close>

theorem get_error_result:
  "(get_error decode_and_unpickle self = Inr PNone \<longleftrightarrow> error self = PNone) \<and>
   (error self = PDict kvs \<and> map_of kvs (PStr ''object'') = Some stored \<and>
    map_of kvs (PStr ''type'') = Some t \<and> map_of kvs (PStr ''message'') = Some m \<and>
    decode_and_unpickle stored = Inr obj \<longrightarrow>
      get_error decode_and_unpickle self =
        Inr (PDict [(PStr ''object'', obj), (PStr ''type'', t), (PStr ''message'', m)]))"
  by (auto simp: get_error_def split: sum.splits)

theorem get_error_result_witness:
  "get_error example_unpickle example_task = Inr PNone \<and> error example_task = PNone \<and>
   error failed_task \<noteq> PNone \<and>
   get_error example_unpickle failed_task =
     Inr (PDict [(PStr ''object'', PException bad_input),
                 (PStr ''type'', PStr ''ValueError''),
                 (PStr ''message'', PStr ''bad input'')])"
proof -
  have e: "error failed_task =
      PDict [(PStr ''object'', PStr ''gASV''), (PStr ''type'', PStr ''ValueError''),
             (PStr ''message'', PStr ''bad input'')]"
    by (simp add: failed_task_def)
  have d: "example_unpickle (PStr ''gASV'') = Inr (PException bad_input)"
    by (simp add: example_unpickle_def)
  have n: "error example_task = PNone"
    by (simp add: example_task_def)
  from get_error_result
      [of example_unpickle failed_task
        "[(PStr ''object'', PStr ''gASV''), (PStr ''type'', PStr ''ValueError''),
          (PStr ''message'', PStr ''bad input'')]"
        "PStr ''gASV''" "PStr ''ValueError''" "PStr ''bad input''" "PException bad_input"]
    get_error_result [of example_unpickle example_task] e d n
  show ?thesis by simp
qed

text \<open>
  The claim as stated fails on a record whose field \<^verbatim>\<open>error\<close> is present and lacks a
  key: \<^verbatim>\<open>get_error\<close> on the empty dict raises KeyError instead of returning.
\<close>

theorem get_error_missing_key_counterexample:
  "error empty_error_task \<noteq> PNone \<and>
   get_error (\<lambda>v. Inr v) empty_error_task = Inl KeyError"
  by (simp add: empty_error_task_def example_task_def get_error_def)

subsection \<open>The connection and the first access\<close>

lemma store_usable_iff:
  "store_usable w =
     (case DB w of None \<Rightarrow> first_connection_ok w | Some c \<Rightarrow> files w c \<noteq> None)"
  by (simp add: store_usable_def split: option.splits)

lemma schema_exists_iff:
  "schema_exists w = (case db_file w of None \<Rightarrow> False | Some c \<Rightarrow> files w c \<noteq> None)"
  by (simp add: schema_exists_def split: option.splits)

lemma lock_free_iff: "lock_free w rid = (lock_error w (request_lock_path rid) = None)"
  by (simp add: lock_free_def split: option.splits)

lemma init_db_connected: "DB w = Some c \<Longrightarrow> init_db w = (w, Inr ())"
  by (simp add: init_db_def)

lemma init_db_existing_file:
  assumes "DB w = None" and "first_connection_ok w" and "db_file w = Some c"
  shows "init_db w =
    (w\<lparr>files := (files w)(c := Some (case files w c of None \<Rightarrow> Map.empty | Some t \<Rightarrow> t)),
       events := events w @ [Connect, CreateTable], DB := Some c\<rparr>, Inr ())"
  using assms
  by (auto simp: init_db_def SQLiteConn_def create_table_def first_connection_ok_def)

lemma init_db_new_file:
  assumes "DB w = None" and "first_connection_ok w" and "db_file w = None"
  shows "init_db w =
    (w\<lparr>db_file := Some (fresh w), files := (files w)(fresh w := Some Map.empty),
       fresh := Suc (fresh w), events := events w @ [Connect, CreateTable],
       DB := Some (fresh w)\<rparr>,
     Inr ())"
  using assms
  by (auto simp: init_db_def SQLiteConn_def create_table_def first_connection_ok_def)

lemma init_db_frame:
  "stored_rows (fst (init_db w)) = stored_rows w \<and>
   filter is_upsert (events (fst (init_db w))) = filter is_upsert (events w) \<and>
   filter is_lock_event (events (fst (init_db w))) = filter is_lock_event (events w) \<and>
   stdout (fst (init_db w)) = stdout w \<and>
   sqlite_raises (fst (init_db w)) = sqlite_raises w \<and>
   lock_denied (fst (init_db w)) = lock_denied w \<and>
   python (fst (init_db w)) = python w"
  by (simp add: init_db_def SQLiteConn_def create_table_def stored_rows_def
      split: option.splits)

lemma init_db_returns_connected:
  assumes "init_db w = (w1, Inr u)"
  shows "DB w1 \<noteq> None"
  using assms
  by (auto simp: init_db_def split: option.splits prod.splits sum.splits)

lemma init_db_usable:
  assumes "store_usable w"
  obtains w1 c t where "init_db w = (w1, Inr ())" and "DB w1 = Some c"
    and "files w1 c = Some t"
proof (cases "DB w")
  case (Some c)
  with assms that show ?thesis by (auto simp: init_db_connected store_usable_iff)
next
  case None
  with assms have ok: "first_connection_ok w"
    by (simp add: store_usable_iff)
  show ?thesis
  proof (cases "db_file w")
    case n: None
    show ?thesis
      by (rule that [OF init_db_new_file [OF None ok n], of "fresh w" Map.empty]) simp_all
  next
    case (Some c)
    show ?thesis
      by (rule that [OF init_db_existing_file [OF None ok Some], of c
            "case files w c of None \<Rightarrow> Map.empty | Some t \<Rightarrow> t"]) simp_all
  qed
qed

lemma lock_error_events:
  "lock_error (w\<lparr>events := evs\<rparr>) p = lock_error w p"
  by (simp add: lock_error_def)

lemma lock_error_init_db: "lock_error (fst (init_db w)) p = lock_error w p"
  using init_db_frame [of w] by (simp add: lock_error_def)

lemma get_rest_task_no_lock_missing:
  assumes "DB w = Some c" and "files w c = Some t" and "t rid = None"
    and "\<not> sqlite_raises w (Select rid)"
  shows "get_rest_task_no_lock w rid = (w\<lparr>events := events w @ [Select rid]\<rparr>, Inr None)"
  using assms by (simp add: get_rest_task_no_lock_def)

lemma stored_rows_connected:
  "DB w = Some c \<Longrightarrow> files w c = Some t \<Longrightarrow> stored_rows w = t"
  by (simp add: stored_rows_def)

lemma stored_rows_events:
  "stored_rows (w\<lparr>events := evs\<rparr>) = stored_rows w"
  by (simp add: stored_rows_def split: option.splits)

lemma reset_db_fields:
  "DB (reset_db w) = DB w" "db_file (reset_db w) = None" "files (reset_db w) = files w"
  "first_connection_ok (reset_db w) = first_connection_ok w"
  "sqlite_raises (reset_db w) = sqlite_raises w" "python (reset_db w) = python w"
  "lock_error (reset_db w) p = lock_error w p"
  by (simp_all add: reset_db_def first_connection_ok_def lock_error_def split: option.splits)

lemma lock_error_same:
  "lock_denied w' = lock_denied w \<Longrightarrow> lock_error w' p = lock_error w p"
  by (simp add: lock_error_def)

lemma lock_free_same:
  "lock_denied w' = lock_denied w \<Longrightarrow> lock_free w' rid = lock_free w rid"
  by (simp add: lock_free_def lock_error_def)

lemma encode_returns:
  assumes "snd (encode py t) = Inr row"
  shows "encode py t = ([], Inr row)" and "payload_request_id row = request_id t"
    and "payload_pid row = pid t"
  using assms
  by (auto simp: encode_def encode_except_def split: sum.splits if_splits option.splits)

lemma get_request_first_access:
  assumes "DB w = None" and "db_file w = None" and "first_connection_ok w"
    and "lock_free w rid" and "\<not> sqlite_raises w (Select rid)"
  shows "get_request w rid =
    (w\<lparr>db_file := Some (fresh w), files := (files w)(fresh w := Some Map.empty),
       fresh := Suc (fresh w),
       events := events w @ [Connect, CreateTable, Acquire (request_lock_path rid),
                             Select rid, Release (request_lock_path rid)],
       DB := Some (fresh w)\<rparr>, Inr None)"
proof -
  let ?w1 = "w\<lparr>db_file := Some (fresh w), files := (files w)(fresh w := Some Map.empty),
       fresh := Suc (fresh w), events := events w @ [Connect, CreateTable],
       DB := Some (fresh w)\<rparr>"
  have l: "lock_error ?w1 (request_lock_path rid) = None"
    using assms(4) by (simp add: lock_free_iff lock_error_same [of ?w1 w])
  show ?thesis
    using assms(5) l
    by (simp add: get_request_def init_db_new_file [OF assms(1) assms(3) assms(2)]
        get_rest_task_no_lock_def)
qed

lemma dump_request_no_lock_written:
  assumes "DB w = Some c" and "files w c = Some tb" and "snd (encode (python w) t) = Inr row"
    and "sqlite_integer (pid t)" and "\<not> sqlite_raises w (Upsert (request_id t))"
  shows "dump_request_no_lock w t =
    (w\<lparr>files := (files w)(c := Some (tb(request_id t \<mapsto> row))),
       events := events w @ [Upsert (request_id t)]\<rparr>, Inr ())"
  using assms(1,2,4,5)
  by (simp add: dump_request_no_lock_def to_row_def encode_returns [OF assms(3)])

lemma dump_reqest_connected:
  assumes "DB w = Some c" and "files w c = Some tb" and "snd (encode (python w) t) = Inr row"
    and "sqlite_integer (pid t)" and "lock_free w (request_id t)"
    and "\<not> sqlite_raises w (Upsert (request_id t))"
  shows "dump_reqest w t =
    (w\<lparr>files := (files w)(c := Some (tb(request_id t \<mapsto> row))),
       events := events w @ [Acquire (request_lock_path (request_id t)),
                             Upsert (request_id t),
                             Release (request_lock_path (request_id t))]\<rparr>, Inr ())"
proof -
  let ?w1 = "w\<lparr>events := events w @ [Acquire (request_lock_path (request_id t))]\<rparr>"
  have "dump_request_no_lock ?w1 t =
    (?w1\<lparr>files := (files ?w1)(c := Some (tb(request_id t \<mapsto> row))),
        events := events ?w1 @ [Upsert (request_id t)]\<rparr>, Inr ())"
    using assms by (intro dump_request_no_lock_written) simp_all
  then show ?thesis
    using assms(1,5)
    by (simp add: dump_reqest_def init_db_connected lock_free_iff)
qed

lemma dump_reqest_first_access:
  assumes "DB w = None" and "db_file w = None" and "first_connection_ok w"
    and "snd (encode (python w) t) = Inr row"
    and "sqlite_integer (pid t)" and "lock_free w (request_id t)"
    and "\<not> sqlite_raises w (Upsert (request_id t))"
  shows "dump_reqest w t =
    (w\<lparr>db_file := Some (fresh w),
       files := (files w)(fresh w := Some [request_id t \<mapsto> row]),
       fresh := Suc (fresh w),
       events := events w @ [Connect, CreateTable,
                             Acquire (request_lock_path (request_id t)),
                             Upsert (request_id t),
                             Release (request_lock_path (request_id t))],
       DB := Some (fresh w)\<rparr>, Inr ())"
proof -
  let ?w1 = "w\<lparr>db_file := Some (fresh w), files := (files w)(fresh w := Some Map.empty),
       fresh := Suc (fresh w), events := events w @ [Connect, CreateTable],
       DB := Some (fresh w)\<rparr>"
  have i: "init_db w = (?w1, Inr ())"
    by (rule init_db_new_file [OF assms(1) assms(3) assms(2)])
  have "dump_reqest ?w1 t =
    (?w1\<lparr>files := (files ?w1)(fresh w := Some (Map.empty(request_id t \<mapsto> row))),
       events := events ?w1 @ [Acquire (request_lock_path (request_id t)),
                             Upsert (request_id t),
                             Release (request_lock_path (request_id t))]\<rparr>, Inr ())"
    using assms(4-7)
    by (intro dump_reqest_connected) (simp_all add: lock_free_same [of ?w1 w])
  moreover have "dump_reqest w t = dump_reqest ?w1 t"
    by (simp add: dump_reqest_def i init_db_connected [of ?w1 "fresh w"])
  ultimately show ?thesis by simp
qed

lemma update_rest_task_enter_found:
  assumes "DB w = Some c" and "files w c = Some tb" and "tb rid = Some row"
    and "decode (python w) row = Inr task" and "\<not> sqlite_raises w (Select rid)"
  shows "update_rest_task_enter w rid = (w\<lparr>events := events w @ [Select rid]\<rparr>, Inr (Some task))"
  using assms
  by (simp add: update_rest_task_enter_def init_db_connected get_rest_task_no_lock_def
      from_row_def)

lemma update_rest_task_exit_written:
  assumes "DB w = Some c" and "files w c = Some tb" and "snd (encode (python w) t) = Inr row"
    and "sqlite_integer (pid t)" and "\<not> sqlite_raises w (Upsert (request_id t))"
  shows "update_rest_task_exit w (Some t) =
    (w\<lparr>files := (files w)(c := Some (tb(request_id t \<mapsto> row))),
       events := events w @ [Upsert (request_id t)]\<rparr>, Inr ())"
  using dump_request_no_lock_written [OF assms]
  by (simp add: update_rest_task_exit_def)

lemma update_rest_task_found:
  assumes "DB w = Some c" and "files w c = Some tb" and "tb rid = Some row"
    and "decode (python w) row = Inr task" and "\<not> sqlite_raises w (Select rid)"
    and "snd (encode (python w) (f task)) = Inr row'"
    and "sqlite_integer (pid (f task))"
    and "\<not> sqlite_raises w (Upsert (request_id (f task)))"
  shows "update_rest_task w rid (\<lambda>t. Inr (map_option f t)) =
    (w\<lparr>files := (files w)(c := Some (tb(request_id (f task) \<mapsto> row'))),
       events := events w @ [Select rid, Upsert (request_id (f task))]\<rparr>, Inr ())"
proof -
  let ?w1 = "w\<lparr>events := events w @ [Select rid]\<rparr>"
  have "update_rest_task_exit ?w1 (Some (f task)) =
    (?w1\<lparr>files := (files ?w1)(c := Some (tb(request_id (f task) \<mapsto> row'))),
       events := events ?w1 @ [Upsert (request_id (f task))]\<rparr>, Inr ())"
    using assms by (intro update_rest_task_exit_written) simp_all
  then show ?thesis
    by (simp add: update_rest_task_def update_rest_task_enter_found [OF assms(1-5)])
qed

subsection \<open>The example processes\<close>

lemma encode_example_task: "encode cpython example_task = ([], Inr example_row)"
  by (simp add: encode_def example_task_def example_row_def json_dumps_def cpython_fields
      small_int_not_too_long)

lemma decode_example_row: "decode cpython example_row = Inr example_task"
  by (simp add: decode_def example_task_def example_row_def json_loads_def cpython_fields
      small_int_not_too_long RequestStatus_of_value_def RequestStatus_list_def
      dict_of_pairs_def)

lemma example_task_fields: "request_id example_task = ''r1''" "pid example_task = None"
  by (simp_all add: example_task_def)

lemma lock_free_r1: "lock_denied w = (\<lambda>p. None) \<Longrightarrow> lock_free w ''r1''"
  by (simp add: lock_free_def lock_error_def request_lock_path_def basename_def)

lemma new_process_fields:
  "DB new_process = None" "db_file new_process = None" "first_connection_ok new_process"
  "python new_process = cpython" "sqlite_raises new_process s = False"
  "lock_denied new_process = (\<lambda>p. None)" "stored_rows new_process = Map.empty"
  by (simp_all add: new_process_def first_connection_ok_def stored_rows_def)

lemma serving_process_eq:
  "serving_process =
     \<lparr>db_file = Some 0, files = (\<lambda>c. None)(0 := Some [''r1'' \<mapsto> example_row]),
      fresh = Suc 0, DB = Some 0, is_wsl = False, journal_mode_pragma = PragmaOk,
      sqlite_raises = (\<lambda>s. False), lock_denied = (\<lambda>p. None), python = cpython,
      stdout = [],
      events = [Connect, CreateTable, Acquire (request_lock_path ''r1''), Upsert ''r1'',
                Release (request_lock_path ''r1'')]\<rparr>"
proof -
  have "dump_reqest new_process example_task =
    (new_process\<lparr>db_file := Some (fresh new_process),
       files := (files new_process)(fresh new_process := Some [request_id example_task \<mapsto> example_row]),
       fresh := Suc (fresh new_process),
       events := events new_process @ [Connect, CreateTable,
                             Acquire (request_lock_path (request_id example_task)),
                             Upsert (request_id example_task),
                             Release (request_lock_path (request_id example_task))],
       DB := Some (fresh new_process)\<rparr>, Inr ())"
    by (rule dump_reqest_first_access)
      (simp_all add: new_process_fields encode_example_task example_task_fields
        sqlite_integer_def lock_free_r1)
  then show ?thesis
    by (simp add: serving_process_def example_task_fields new_process_def)
qed

lemma serving_process_fields:
  "DB serving_process = Some 0" "db_file serving_process = Some 0"
  "files serving_process 0 = Some [''r1'' \<mapsto> example_row]"
  "stored_rows serving_process = [''r1'' \<mapsto> example_row]"
  "python serving_process = cpython" "sqlite_raises serving_process s = False"
  "lock_denied serving_process = (\<lambda>p. None)"
  by (simp_all add: serving_process_eq stored_rows_def)

lemma example_rows:
  "encode cpython (start_running example_task) = ([], Inr running_row)"
  "encode cpython (record_pid example_task) = ([], Inr pid_row)"
  "encode cpython (record_pid (start_running example_task)) = ([], Inr running_pid_row)"
  "encode cpython (start_running (record_pid example_task)) = ([], Inr running_pid_row)"
  "decode cpython running_row = Inr (start_running example_task)"
  "decode cpython pid_row = Inr (record_pid example_task)"
  "decode cpython running_pid_row = Inr (example_task\<lparr>status := RUNNING, pid := Some 123\<rparr>)"
  by (simp_all add: encode_def decode_def start_running_def record_pid_def example_task_def
      example_row_def running_row_def pid_row_def running_pid_row_def json_dumps_def
      json_loads_def cpython_fields small_int_not_too_long
      RequestStatus_of_value_def RequestStatus_list_def dict_of_pairs_def)

lemma updated_task_fields:
  "request_id (start_running t) = request_id t" "request_id (record_pid t) = request_id t"
  "sqlite_integer (pid (start_running example_task))"
  "sqlite_integer (pid (record_pid t))"
  "sqlite_integer (pid (start_running (record_pid t)))"
  by (simp_all add: start_running_def record_pid_def sqlite_integer_def example_task_def)

lemma interleaved_eq:
  "updates_interleaved serving_process ''r1'' start_running record_pid =
     serving_process\<lparr>files := (files serving_process)(0 := Some [''r1'' \<mapsto> pid_row]),
        events := events serving_process @
          [Select ''r1'', Select ''r1'', Upsert ''r1'', Upsert ''r1'']\<rparr>"
proof -
  let ?w1 = "serving_process\<lparr>events := events serving_process @ [Select ''r1'']\<rparr>"
  let ?w2 = "serving_process\<lparr>events := events serving_process @ [Select ''r1'', Select ''r1'']\<rparr>"
  let ?w3 = "serving_process\<lparr>files := (files serving_process)(0 := Some [''r1'' \<mapsto> running_row]),
                events := events serving_process @ [Select ''r1'', Select ''r1'', Upsert ''r1'']\<rparr>"
  let ?w4 = "serving_process\<lparr>files := (files serving_process)(0 := Some [''r1'' \<mapsto> pid_row]),
                events := events serving_process @
                  [Select ''r1'', Select ''r1'', Upsert ''r1'', Upsert ''r1'']\<rparr>"
  have e1: "update_rest_task_enter serving_process ''r1'' = (?w1, Inr (Some example_task))"
    by (rule update_rest_task_enter_found
          [where c = 0 and row = example_row and tb = "[''r1'' \<mapsto> example_row]"])
      (simp_all add: serving_process_fields decode_example_row)
  have e2: "update_rest_task_enter ?w1 ''r1'' = (?w2, Inr (Some example_task))"
    using update_rest_task_enter_found
      [of ?w1 0 "[''r1'' \<mapsto> example_row]" "''r1''" example_row example_task]
    by (simp add: serving_process_fields decode_example_row)
  have x1: "update_rest_task_exit ?w2 (Some (start_running example_task)) = (?w3, Inr ())"
    using update_rest_task_exit_written [of ?w2 0 "[''r1'' \<mapsto> example_row]"
        "start_running example_task" running_row]
    by (simp add: serving_process_fields example_rows updated_task_fields
        example_task_fields)
  have x2: "update_rest_task_exit ?w3 (Some (record_pid example_task)) = (?w4, Inr ())"
    using update_rest_task_exit_written [of ?w3 0 "[''r1'' \<mapsto> running_row]"
        "record_pid example_task" pid_row]
    by (simp add: serving_process_fields example_rows updated_task_fields
        example_task_fields)
  show ?thesis
    by (simp add: updates_interleaved_def e1 e2 x1 x2)
qed

lemma serial_eq:
  "updates_serial serving_process ''r1'' start_running record_pid =
     serving_process\<lparr>files := (files serving_process)(0 := Some [''r1'' \<mapsto> running_pid_row]),
        events := events serving_process @
          [Select ''r1'', Upsert ''r1'', Select ''r1'', Upsert ''r1'']\<rparr>"
proof -
  let ?w1 = "serving_process\<lparr>files := (files serving_process)(0 := Some [''r1'' \<mapsto> running_row]),
        events := events serving_process @ [Select ''r1'', Upsert ''r1'']\<rparr>"
  let ?w2 = "serving_process\<lparr>files := (files serving_process)(0 := Some [''r1'' \<mapsto> running_pid_row]),
        events := events serving_process @
          [Select ''r1'', Upsert ''r1'', Select ''r1'', Upsert ''r1'']\<rparr>"
  have u1: "update_rest_task serving_process ''r1'' (\<lambda>t. Inr (map_option start_running t)) =
      (?w1, Inr ())"
    using update_rest_task_found [of serving_process 0 "[''r1'' \<mapsto> example_row]" "''r1''"
        example_row example_task start_running running_row]
    by (simp add: serving_process_fields example_rows decode_example_row updated_task_fields
        example_task_fields)
  have u2: "update_rest_task ?w1 ''r1'' (\<lambda>t. Inr (map_option record_pid t)) = (?w2, Inr ())"
    using update_rest_task_found [of ?w1 0 "[''r1'' \<mapsto> running_row]" "''r1''"
        running_row "start_running example_task" record_pid running_pid_row]
    by (simp add: serving_process_fields example_rows updated_task_fields
        example_task_fields)
  show ?thesis
    by (simp add: updates_serial_def u1 u2)
qed

lemma serial_swapped_eq:
  "updates_serial serving_process ''r1'' record_pid start_running =
     serving_process\<lparr>files := (files serving_process)(0 := Some [''r1'' \<mapsto> running_pid_row]),
        events := events serving_process @
          [Select ''r1'', Upsert ''r1'', Select ''r1'', Upsert ''r1'']\<rparr>"
proof -
  let ?w1 = "serving_process\<lparr>files := (files serving_process)(0 := Some [''r1'' \<mapsto> pid_row]),
        events := events serving_process @ [Select ''r1'', Upsert ''r1'']\<rparr>"
  let ?w2 = "serving_process\<lparr>files := (files serving_process)(0 := Some [''r1'' \<mapsto> running_pid_row]),
        events := events serving_process @
          [Select ''r1'', Upsert ''r1'', Select ''r1'', Upsert ''r1'']\<rparr>"
  have u1: "update_rest_task serving_process ''r1'' (\<lambda>t. Inr (map_option record_pid t)) =
      (?w1, Inr ())"
    using update_rest_task_found [of serving_process 0 "[''r1'' \<mapsto> example_row]" "''r1''"
        example_row example_task record_pid pid_row]
    by (simp add: serving_process_fields example_rows decode_example_row updated_task_fields
        example_task_fields)
  have u2: "update_rest_task ?w1 ''r1'' (\<lambda>t. Inr (map_option start_running t)) = (?w2, Inr ())"
    using update_rest_task_found [of ?w1 0 "[''r1'' \<mapsto> pid_row]" "''r1''"
        pid_row "record_pid example_task" start_running running_pid_row]
    by (simp add: serving_process_fields example_rows updated_task_fields
        example_task_fields)
  show ?thesis
    by (simp add: updates_serial_def u1 u2)
qed

subsection \<open>Locks\<close>

lemma get_rest_task_no_lock_locks:
  "filter is_lock_event (events (fst (get_rest_task_no_lock w rid))) =
     filter is_lock_event (events w)"
  by (simp add: get_rest_task_no_lock_def split: option.splits sum.splits)

lemma dump_request_no_lock_locks:
  "filter is_lock_event (events (fst (dump_request_no_lock w t))) =
     filter is_lock_event (events w)"
  by (simp add: dump_request_no_lock_def split: option.splits sum.splits prod.splits)

lemma update_rest_task_enter_locks:
  "filter is_lock_event (events (fst (update_rest_task_enter w rid))) =
     filter is_lock_event (events w)"
proof -
  obtain w1 r where i: "init_db w = (w1, r)" by (cases "init_db w")
  then have "filter is_lock_event (events w1) = filter is_lock_event (events w)"
    using init_db_frame [of w] by simp
  with i show ?thesis
    by (cases r) (simp_all add: update_rest_task_enter_def get_rest_task_no_lock_locks)
qed

lemma update_rest_task_exit_locks:
  "filter is_lock_event (events (fst (update_rest_task_exit w t))) =
     filter is_lock_event (events w)"
  by (cases t) (simp_all add: update_rest_task_exit_def dump_request_no_lock_locks)

lemma update_rest_task_takes_no_lock:
  "filter is_lock_event (events (fst (update_rest_task w rid body))) =
     filter is_lock_event (events w)"
proof -
  obtain w1 r where e: "update_rest_task_enter w rid = (w1, r)"
    by (cases "update_rest_task_enter w rid")
  then have l: "filter is_lock_event (events w1) = filter is_lock_event (events w)"
    using update_rest_task_enter_locks [of w rid] by simp
  show ?thesis
  proof (cases r)
    case (Inl x)
    with e l show ?thesis by (simp add: update_rest_task_def)
  next
    case (Inr rest_task)
    with e l show ?thesis
      by (cases "body rest_task")
        (simp_all add: update_rest_task_def update_rest_task_exit_locks)
  qed
qed

lemma get_request_serving_process:
  "get_request serving_process ''r1'' =
     (serving_process\<lparr>events := events serving_process @
         [Acquire (request_lock_path ''r1''), Select ''r1'',
          Release (request_lock_path ''r1'')]\<rparr>, Inr (Some example_task))"
  using lock_free_r1 [of serving_process]
  by (simp add: get_request_def init_db_connected [OF serving_process_fields(1)]
      get_rest_task_no_lock_def serving_process_fields from_row_def decode_example_row
      lock_free_iff)

subsection \<open>A usable store stays usable\<close>

text \<open>
  A new process has a usable store, and every operation of the module keeps it usable:
  once \<^verbatim>\<open>init_db\<close> has connected, the connection has its table.
\<close>

lemma store_usable_events:
  "store_usable (w\<lparr>events := evs\<rparr>) = store_usable w"
  by (simp add: store_usable_def first_connection_ok_def split: option.splits)

lemma store_usable_new_process: "store_usable new_process"
  by (simp add: store_usable_iff new_process_fields)

lemma get_rest_task_no_lock_keeps_usable:
  assumes "store_usable w" and "DB w \<noteq> None"
  shows "store_usable (fst (get_rest_task_no_lock w rid)) \<and>
         DB (fst (get_rest_task_no_lock w rid)) \<noteq> None"
  using assms
  by (auto simp: get_rest_task_no_lock_def store_usable_iff split: option.splits sum.splits)

lemma dump_request_no_lock_keeps_usable:
  assumes "store_usable w" and "DB w \<noteq> None"
  shows "store_usable (fst (dump_request_no_lock w t))"
  using assms
  by (auto simp: dump_request_no_lock_def store_usable_iff
      split: option.splits sum.splits prod.splits)

lemma store_usable_kept:
  assumes "store_usable w"
  shows "store_usable (fst (get_request w rid))"
    and "store_usable (fst (dump_reqest w t))"
    and "store_usable (fst (update_rest_task w rid body))"
    and "store_usable (reset_db w)"
proof -
  obtain w1 c tb where i: "init_db w = (w1, Inr ())" and c: "DB w1 = Some c"
    and tb: "files w1 c = Some tb"
    using assms by (rule init_db_usable)
  have u1: "store_usable w1" using c tb by (simp add: store_usable_iff)
  have d1: "DB w1 \<noteq> None" using c by simp
  show "store_usable (fst (get_request w rid))"
    using get_rest_task_no_lock_keeps_usable
      [of "w1\<lparr>events := events w1 @ [Acquire (request_lock_path rid)]\<rparr>" rid] u1 d1
    by (auto simp: get_request_def i store_usable_events split: prod.splits option.splits)
  show "store_usable (fst (dump_reqest w t))"
    using dump_request_no_lock_keeps_usable
      [of "w1\<lparr>events := events w1 @ [Acquire (request_lock_path (request_id t))]\<rparr>" t] u1 d1
    by (auto simp: dump_reqest_def i store_usable_events split: prod.splits option.splits)
  show "store_usable (fst (update_rest_task w rid body))"
  proof -
    obtain w2 r where g: "get_rest_task_no_lock w1 rid = (w2, r)"
      by (cases "get_rest_task_no_lock w1 rid")
    with get_rest_task_no_lock_keeps_usable [OF u1 d1, of rid]
    have u2: "store_usable w2" and d2: "DB w2 \<noteq> None" by simp_all
    show ?thesis
      using u2 dump_request_no_lock_keeps_usable [OF u2 d2]
      by (auto simp: update_rest_task_def update_rest_task_enter_def i g
          update_rest_task_exit_def split: sum.splits option.splits)
  qed
  show "store_usable (reset_db w)"
    using assms
    by (simp add: reset_db_def store_usable_iff first_connection_ok_def split: option.splits)
qed

subsection \<open>Reading, updating and resetting the store\<close>

text \<open>
  Claim C5, as amended. For every request id with no stored row whose lock can be taken
  (opening the lock file raises nothing), in a store that answers (a first connection
  would be made, an open connection has its table) and on which the \<^verbatim>\<open>SELECT\<close> does not
  raise, \<^verbatim>\<open>get_request\<close> returns \<^verbatim>\<open>None\<close>; it does not raise.
\<close>

theorem get_request_not_found:
  assumes "store_usable w" and "lock_free w rid" and "\<not> sqlite_raises w (Select rid)"
    and "stored_rows w rid = None"
  shows "snd (get_request w rid) = Inr None"
proof -
  obtain w1 c t where i: "init_db w = (w1, Inr ())"
    and c: "DB w1 = Some c" and t: "files w1 c = Some t"
    using assms(1) by (rule init_db_usable)
  have f: "stored_rows w1 = stored_rows w" "sqlite_raises w1 = sqlite_raises w"
    using init_db_frame [of w] i by simp_all
  have l: "lock_error w1 (request_lock_path rid) = None"
    using assms(2) lock_error_init_db [of w] i by (simp add: lock_free_iff)
  have "stored_rows w1 = t"
    using c t by (rule stored_rows_connected)
  then have "t rid = None"
    using assms(4) f by simp
  then have "get_rest_task_no_lock
      (w1\<lparr>events := events w1 @ [Acquire (request_lock_path rid)]\<rparr>) rid =
      (w1\<lparr>events := events w1 @ [Acquire (request_lock_path rid)]\<rparr>
         \<lparr>events := events (w1\<lparr>events := events w1 @ [Acquire (request_lock_path rid)]\<rparr>)
            @ [Select rid]\<rparr>, Inr None)"
    using c t assms(3) f
    by (intro get_rest_task_no_lock_missing [where c = c and t = t]) simp_all
  then show ?thesis
    using i l by (simp add: get_request_def)
qed

theorem get_request_not_found_witness:
  "store_usable serving_process \<and> lock_free serving_process ''unknown'' \<and>
   \<not> sqlite_raises serving_process (Select ''unknown'') \<and>
   stored_rows serving_process ''unknown'' = None \<and>
   snd (get_request serving_process ''unknown'') = Inr None"
proof -
  have u: "store_usable serving_process"
    by (simp add: store_usable_iff serving_process_fields)
  have l: "lock_free serving_process ''unknown''"
    by (simp add: lock_free_def lock_error_def request_lock_path_def basename_def
        serving_process_fields)
  have s: "\<not> sqlite_raises serving_process (Select ''unknown'')"
    by (simp add: serving_process_fields)
  have n: "stored_rows serving_process ''unknown'' = None"
    by (simp add: serving_process_fields)
  from get_request_not_found [OF u l s n] u l s n show ?thesis by simp
qed

text \<open>
  The claim as stated fails on a request id that is no file name: with a NUL character
  in the id, and nothing stored under it in a store that answers, \<^verbatim>\<open>get_request\<close> raises
  the ValueError of opening the lock file instead of returning \<^verbatim>\<open>None\<close>.
\<close>

theorem get_request_nul_counterexample:
  "store_usable new_process \<and> \<not> sqlite_raises new_process (Select nul_id) \<and>
   lock_denied new_process (request_lock_path nul_id) = None \<and>
   stored_rows new_process nul_id = None \<and>
   snd (get_request new_process nul_id) = Inl ValueError"
proof -
  have l: "lock_error w (request_lock_path nul_id) = Some ValueError" for w
    by (simp add: lock_error_def request_lock_path_def nul_id_def)
  have i: "init_db new_process =
      (new_process\<lparr>db_file := Some (fresh new_process),
         files := (files new_process)(fresh new_process := Some Map.empty),
         fresh := Suc (fresh new_process),
         events := events new_process @ [Connect, CreateTable],
         DB := Some (fresh new_process)\<rparr>, Inr ())"
    by (rule init_db_new_file) (simp_all add: new_process_fields)
  show ?thesis
    by (simp add: store_usable_new_process new_process_fields get_request_def i l)
qed

lemma update_rest_task_no_record_world:
  assumes "stored_rows w rid = None"
  shows "fst (update_rest_task w rid body) = fst (init_db w) \<or>
         fst (update_rest_task w rid body) =
           (fst (init_db w))\<lparr>events := events (fst (init_db w)) @ [Select rid]\<rparr>"
proof -
  obtain w1 r where i: "init_db w = (w1, r)" by (cases "init_db w")
  show ?thesis
  proof (cases r)
    case (Inl e)
    with i show ?thesis
      by (simp add: update_rest_task_def update_rest_task_enter_def)
  next
    case (Inr u)
    with i have "DB w1 \<noteq> None" by (auto dest: init_db_returns_connected)
    then obtain c where c: "DB w1 = Some c" by blast
    show ?thesis
    proof (cases "sqlite_raises w1 (Select rid)")
      case True
      with i Inr c show ?thesis
        by (simp add: update_rest_task_def update_rest_task_enter_def
            get_rest_task_no_lock_def)
    next
      case ok: False
      show ?thesis
      proof (cases "files w1 c")
        case None
        with i Inr c ok show ?thesis
          by (simp add: update_rest_task_def update_rest_task_enter_def
              get_rest_task_no_lock_def)
      next
        case (Some t)
        with c have "stored_rows w1 = t" by (rule stored_rows_connected)
        with assms init_db_frame [of w] i have "t rid = None" by simp
        with c Some have "get_rest_task_no_lock w1 rid =
            (w1\<lparr>events := events w1 @ [Select rid]\<rparr>, Inr None)"
          using ok by (intro get_rest_task_no_lock_missing)
        with i Inr show ?thesis
          by (simp add: update_rest_task_def update_rest_task_enter_def
              update_rest_task_exit_def split: sum.splits)
      qed
    qed
  qed
qed

text \<open>
  Claim C6. If no row is stored under the request id when \<^verbatim>\<open>update_rest_task\<close> is
  entered, then whatever the block does, when the statement is left no row has been
  written (no \<^verbatim>\<open>INSERT OR REPLACE\<close> was run) and the stored rows are the same; the
  files, the path and the connection are as the prologue of \<^verbatim>\<open>init_db\<close> left them.
\<close>

theorem update_rest_task_no_record:
  assumes "stored_rows w rid = None"
  shows "stored_rows (fst (update_rest_task w rid body)) = stored_rows w \<and>
         filter is_upsert (events (fst (update_rest_task w rid body))) =
           filter is_upsert (events w) \<and>
         files (fst (update_rest_task w rid body)) = files (fst (init_db w)) \<and>
         db_file (fst (update_rest_task w rid body)) = db_file (fst (init_db w)) \<and>
         DB (fst (update_rest_task w rid body)) = DB (fst (init_db w))"
proof -
  define w1 where "w1 = fst (init_db w)"
  define w2 where "w2 = fst (update_rest_task w rid body)"
  have "w2 = w1 \<or> w2 = w1\<lparr>events := events w1 @ [Select rid]\<rparr>"
    unfolding w1_def w2_def using assms by (rule update_rest_task_no_record_world)
  then have "stored_rows w2 = stored_rows w1 \<and>
      filter is_upsert (events w2) = filter is_upsert (events w1) \<and>
      files w2 = files w1 \<and> db_file w2 = db_file w1 \<and> DB w2 = DB w1"
    by (auto simp: stored_rows_events)
  moreover have "stored_rows w1 = stored_rows w \<and>
      filter is_upsert (events w1) = filter is_upsert (events w)"
    unfolding w1_def using init_db_frame [of w] by simp
  ultimately show ?thesis
    unfolding w1_def w2_def by simp
qed

theorem update_rest_task_no_record_witness:
  "stored_rows serving_process ''unknown'' = None \<and>
   stored_rows (fst (update_rest_task serving_process ''unknown'' Inr)) =
     [''r1'' \<mapsto> example_row] \<and>
   filter is_upsert (events (fst (update_rest_task serving_process ''unknown'' Inr))) =
     [Upsert ''r1'']"
proof -
  have n: "stored_rows serving_process ''unknown'' = None"
    by (simp add: serving_process_fields)
  have "filter is_upsert (events serving_process) = [Upsert ''r1'']"
    by (simp add: serving_process_eq)
  with update_rest_task_no_record [OF n, of Inr] n show ?thesis
    by (simp add: serving_process_fields)
qed

text \<open>
  Claim C2, as amended. In a process that has not opened the store yet (\<^verbatim>\<open>_DB\<close> is
  unset) and whose first connection would be made (connecting, the PRAGMA and
  \<^verbatim>\<open>CREATE TABLE\<close> do not raise): after \<^verbatim>\<open>reset_db\<close> the file is gone; \<^verbatim>\<open>get_request\<close>
  returns \<^verbatim>\<open>None\<close> for every request id whose lock can be taken and whose \<^verbatim>\<open>SELECT\<close>
  does not raise, and that access has re-created the schema; a following write of a
  task succeeds and stores its row, whether it comes after the read or is itself the
  first access, provided the task can be encoded, its pid is \<^verbatim>\<open>None\<close> or an integer of
  64 bits, the lock of its request id can be taken and the \<^verbatim>\<open>INSERT\<close> does not raise.
\<close>

theorem reset_db_before_first_access:
  assumes "DB w = None" and "first_connection_ok w"
    and "lock_free w rid" and "\<not> sqlite_raises w (Select rid)"
    and "snd (encode (python w) t) = Inr row" and "sqlite_integer (pid t)"
    and "lock_free w (request_id t)" and "\<not> sqlite_raises w (Upsert (request_id t))"
  shows "\<not> schema_exists (reset_db w) \<and>
         snd (get_request (reset_db w) rid) = Inr None \<and>
         schema_exists (fst (get_request (reset_db w) rid)) \<and>
         snd (dump_reqest (fst (get_request (reset_db w) rid)) t) = Inr () \<and>
         stored_rows (fst (dump_reqest (fst (get_request (reset_db w) rid)) t)) (request_id t)
           = Some row \<and>
         snd (dump_reqest (reset_db w) t) = Inr () \<and>
         schema_exists (fst (dump_reqest (reset_db w) t)) \<and>
         stored_rows (fst (dump_reqest (reset_db w) t)) (request_id t) = Some row"
proof -
  define w0 where "w0 = reset_db w"
  have d: "DB w0 = None" and f: "db_file w0 = None" and p: "first_connection_ok w0"
    and py: "python w0 = python w" and sr: "sqlite_raises w0 = sqlite_raises w"
    and lr: "lock_free w0 rid" and lt: "lock_free w0 (request_id t)"
    using assms(1,2,3,7) by (simp_all add: w0_def reset_db_fields lock_free_iff)
  have s0: "\<not> sqlite_raises w0 (Select rid)" using assms(4) sr by simp
  have e0: "snd (encode (python w0) t) = Inr row" using assms(5) py by simp
  have u0: "\<not> sqlite_raises w0 (Upsert (request_id t))" using assms(8) sr by simp
  note g = get_request_first_access [OF d f p lr s0]
  define w1 where "w1 = fst (get_request w0 rid)"
  have c: "DB w1 = Some (fresh w0)" and tb: "files w1 (fresh w0) = Some Map.empty"
    and df: "db_file w1 = Some (fresh w0)" and py1: "python w1 = python w0"
    and sr1: "sqlite_raises w1 = sqlite_raises w0" and ld1: "lock_denied w1 = lock_denied w0"
    by (simp_all add: w1_def g)
  have e1: "snd (encode (python w1) t) = Inr row" using e0 py1 by simp
  have l1: "lock_free w1 (request_id t)" using lt lock_free_same [OF ld1] by simp
  have u1: "\<not> sqlite_raises w1 (Upsert (request_id t))" using u0 sr1 by simp
  note u = dump_reqest_connected [OF c tb e1 assms(6) l1 u1]
  note v = dump_reqest_first_access [OF d f p e0 assms(6) lt u0]
  have "\<not> schema_exists w0" using f by (simp add: schema_exists_iff)
  moreover have "snd (get_request w0 rid) = Inr None" by (simp add: g)
  moreover have "schema_exists w1" using df tb by (simp add: schema_exists_iff)
  moreover have "snd (dump_reqest w1 t) = Inr ()" by (simp add: u)
  moreover have "stored_rows (fst (dump_reqest w1 t)) (request_id t) = Some row"
    using c by (simp add: u stored_rows_def)
  moreover have "snd (dump_reqest w0 t) = Inr ()" by (simp add: v)
  moreover have "schema_exists (fst (dump_reqest w0 t))"
    by (simp add: v schema_exists_iff)
  moreover have "stored_rows (fst (dump_reqest w0 t)) (request_id t) = Some row"
    by (simp add: v stored_rows_def)
  ultimately show ?thesis unfolding w0_def w1_def by blast
qed

lemma restarted_process_fields:
  "DB restarted_process = None" "first_connection_ok restarted_process"
  "python restarted_process = cpython" "sqlite_raises restarted_process s = False"
  "lock_denied restarted_process = (\<lambda>p. None)"
  "stored_rows restarted_process ''r1'' = Some example_row"
  by (simp_all add: restarted_process_def serving_process_eq first_connection_ok_def
      stored_rows_def)

theorem reset_db_before_first_access_witness:
  "DB restarted_process = None \<and> first_connection_ok restarted_process \<and>
   lock_free restarted_process ''r1'' \<and>
   \<not> sqlite_raises restarted_process (Select ''r1'') \<and>
   snd (encode (python restarted_process) example_task) = Inr example_row \<and>
   sqlite_integer (pid example_task) \<and>
   \<not> sqlite_raises restarted_process (Upsert ''r1'') \<and>
   stored_rows restarted_process ''r1'' = Some example_row \<and>
   snd (get_request (reset_db restarted_process) ''r1'') = Inr None \<and>
   schema_exists (fst (get_request (reset_db restarted_process) ''r1'')) \<and>
   snd (dump_reqest (fst (get_request (reset_db restarted_process) ''r1'')) example_task)
     = Inr () \<and>
   stored_rows
     (fst (dump_reqest (fst (get_request (reset_db restarted_process) ''r1'')) example_task))
     ''r1'' = Some example_row"
proof -
  have d: "DB restarted_process = None"
    and p: "first_connection_ok restarted_process"
    by (simp_all add: restarted_process_fields)
  have l: "lock_free restarted_process ''r1''"
    by (rule lock_free_r1) (simp add: restarted_process_fields)
  have q: "\<not> sqlite_raises restarted_process (Select ''r1'')"
    by (simp add: restarted_process_fields)
  have e: "snd (encode (python restarted_process) example_task) = Inr example_row"
    by (simp add: restarted_process_fields encode_example_task)
  have i: "sqlite_integer (pid example_task)"
    by (simp add: sqlite_integer_def example_task_fields)
  have lt: "lock_free restarted_process (request_id example_task)"
    using l by (simp add: example_task_fields)
  have u: "\<not> sqlite_raises restarted_process (Upsert (request_id example_task))"
    by (simp add: restarted_process_fields)
  have s: "stored_rows restarted_process ''r1'' = Some example_row"
    by (simp add: restarted_process_fields)
  from reset_db_before_first_access [OF d p l q e i lt u] d p l q e i u s show ?thesis
    by (simp add: example_task_fields)
qed

text \<open>
  The claim as stated fails in a process that is connected when \<^verbatim>\<open>reset_db\<close> runs:
  \<^verbatim>\<open>init_db\<close> finds \<^verbatim>\<open>_DB\<close> set and does not connect again, so \<^verbatim>\<open>get_request\<close> still
  finds the row through the open connection, and neither the read nor a write re-creates
  the schema at the path.
\<close>

theorem reset_db_connected_counterexample:
  "DB serving_process = Some 0 \<and>
   snd (get_request (reset_db serving_process) ''r1'') = Inr (Some example_task) \<and>
   \<not> schema_exists (fst (get_request (reset_db serving_process) ''r1'')) \<and>
   snd (dump_reqest (reset_db serving_process) example_task) = Inr () \<and>
   \<not> schema_exists (fst (dump_reqest (reset_db serving_process) example_task))"
proof -
  define w0 where "w0 = reset_db serving_process"
  have c: "DB w0 = Some 0" and f: "db_file w0 = None"
    and t: "files w0 0 = Some [''r1'' \<mapsto> example_row]"
    and py: "python w0 = cpython" and sr: "sqlite_raises w0 s = False" for s
    by (simp_all add: w0_def reset_db_fields serving_process_fields)
  have l: "lock_free w0 ''r1''"
    unfolding w0_def lock_free_iff reset_db_fields
    using lock_free_r1 [of serving_process]
    by (simp add: lock_free_iff serving_process_fields)
  then have le: "lock_error w0 (request_lock_path ''r1'') = None"
    by (simp add: lock_free_iff)
  have "get_request w0 ''r1'' =
      (w0\<lparr>events := events w0 @ [Acquire (request_lock_path ''r1''), Select ''r1'',
                                  Release (request_lock_path ''r1'')]\<rparr>,
       Inr (Some example_task))"
    using c t le
    by (simp add: get_request_def init_db_connected get_rest_task_no_lock_def from_row_def
        decode_example_row py sr)
  moreover have "dump_reqest w0 example_task =
    (w0\<lparr>files := (files w0)(0 := Some ([''r1'' \<mapsto> example_row](request_id example_task \<mapsto> example_row))),
       events := events w0 @ [Acquire (request_lock_path (request_id example_task)),
                             Upsert (request_id example_task),
                             Release (request_lock_path (request_id example_task))]\<rparr>, Inr ())"
    using l
    by (intro dump_reqest_connected [OF c t])
      (simp_all add: py sr encode_example_task example_task_fields sqlite_integer_def)
  ultimately show ?thesis
    using f unfolding w0_def [symmetric]
    by (simp add: schema_exists_iff serving_process_fields)
qed

text \<open>
  Claim C1, evaluated on the code. \<^verbatim>\<open>update_rest_task\<close> takes no lock: no run of it adds
  an \<open>Acquire\<close> or a \<open>Release\<close>, where \<^verbatim>\<open>get_request\<close> on the same request adds both. Two
  callers that both enter before either leaves lose an update: the first caller's
  \<^verbatim>\<open>status = RUNNING\<close> is overwritten by the second caller's copy, and the stored task is
  still PENDING, which is the outcome of neither order of the two updates run one after
  the other.
\<close>

theorem update_rest_task_lost_update:
  "filter is_lock_event (events (fst (update_rest_task w rid body))) =
     filter is_lock_event (events w) \<and>
   filter is_lock_event (events (fst (get_request serving_process ''r1''))) =
     filter is_lock_event (events serving_process) @
       [Acquire (request_lock_path ''r1''), Release (request_lock_path ''r1'')] \<and>
   map_option (decode cpython)
     (stored_rows (updates_interleaved serving_process ''r1'' start_running record_pid) ''r1'') =
     Some (Inr (example_task\<lparr>pid := Some 123\<rparr>)) \<and>
   map_option (decode cpython)
     (stored_rows (updates_serial serving_process ''r1'' start_running record_pid) ''r1'') =
     Some (Inr (example_task\<lparr>status := RUNNING, pid := Some 123\<rparr>)) \<and>
   map_option (decode cpython)
     (stored_rows (updates_serial serving_process ''r1'' record_pid start_running) ''r1'') =
     Some (Inr (example_task\<lparr>status := RUNNING, pid := Some 123\<rparr>))"
  by (simp add: update_rest_task_takes_no_lock get_request_serving_process interleaved_eq
      serial_eq serial_swapped_eq stored_rows_def serving_process_fields example_rows
      record_pid_def)

end
